theory Spec2Isabelle
  imports Main
begin

section \<open>JavaScript strings and values\<close>

text \<open>
  A JavaScript string is modelled by its UTF-8 byte sequence (\<open>string\<close>), which is what
  \<^verbatim>\<open>Buffer.from\<close> yields and what the regular expressions of the URL normaliser
  inspect: the characters they look at (the letters of \<^verbatim>\<open>linkedin.com\<close> and the
  separators \<^verbatim>\<open>/ ? #\<close>) are ASCII. An optional property
  (\<^verbatim>\<open>string | undefined\<close>, \<^verbatim>\<open>string | null\<close>) is a \<open>string option\<close>.
\<close>

text \<open>
  The methods of \<^verbatim>\<open>String.prototype\<close> whose result depends on the Unicode tables
  of the runtime are parameters of the model: \<^verbatim>\<open>x.toLowerCase()\<close>, \<^verbatim>\<open>x.trim()\<close> and
  \<^verbatim>\<open>x.split(/\s+/)\<close>. Every function that calls one of them takes the record \<open>js\<close>
  of these built-ins, and the theorems are stated for every such record.
\<close>

record builtins =
  toLowerCase :: "string \<Rightarrow> string"
  trim :: "string \<Rightarrow> string"
  split_whitespace :: "string \<Rightarrow> string list"

text \<open>
  The built-ins on ASCII strings, for running the model on examples: the letters
  \<^verbatim>\<open>A\<close> to \<^verbatim>\<open>Z\<close> are lowered, white space is the ASCII white space. On a string of
  ASCII characters they compute what the runtime computes. \<open>to_lower_char\<close> is also
  the case folding of the regular expressions below, whose literals are ASCII.
\<close>

definition to_lower_char :: "char \<Rightarrow> char" where
  "to_lower_char c =
     (let n = (of_char c :: nat) in if 65 \<le> n \<and> n \<le> 90 then char_of (n + 32) else c)"

definition is_space :: "char \<Rightarrow> bool" where
  "is_space c = ((of_char c :: nat) \<in> {9, 10, 11, 12, 13, 32})"

text \<open>
  \<open>split_ws cur in_sep x\<close> splits at runs of white space: \<open>cur\<close> is the token being
  read (reversed), \<open>in_sep\<close> tells that the scan is inside a run of white space.
\<close>

fun split_ws :: "string \<Rightarrow> bool \<Rightarrow> string \<Rightarrow> string list" where
  "split_ws cur in_sep [] = [rev cur]"
| "split_ws cur in_sep (c # cs) =
     (if is_space c
      then (if in_sep then split_ws cur True cs else rev cur # split_ws [] True cs)
      else split_ws (c # cur) False cs)"

definition ascii_js :: builtins where
  "ascii_js =
     \<lparr>toLowerCase = map to_lower_char,
      trim = (\<lambda>x. rev (dropWhile is_space (rev (dropWhile is_space x)))),
      split_whitespace = split_ws [] False\<rparr>"

text \<open>Truthiness of an optional string: \<^verbatim>\<open>undefined\<close>, \<^verbatim>\<open>null\<close> and \<^verbatim>\<open>""\<close> are falsy.\<close>

definition truthy :: "string option \<Rightarrow> bool" where
  "truthy v = (case v of None \<Rightarrow> False | Some x \<Rightarrow> x \<noteq> [])"

text \<open>\<^verbatim>\<open>a || b\<close> on optional strings.\<close>

definition js_or :: "string option \<Rightarrow> string option \<Rightarrow> string option" where
  "js_or a b = (if truthy a then a else b)"

text \<open>
  A value of type \<^verbatim>\<open>any\<close> that travels into a JSON column. Numbers are integers here;
  only their truthiness is ever inspected.
\<close>

datatype json =
    JNull
  | JBool bool
  | JNum int
  | JStr string
  | JArr "json list"
  | JObj "(string \<times> json) list"

fun json_truthy :: "json \<Rightarrow> bool" where
  "json_truthy JNull = False"
| "json_truthy (JBool b) = b"
| "json_truthy (JNum n) = (n \<noteq> 0)"
| "json_truthy (JStr x) = (x \<noteq> [])"
| "json_truthy (JArr xs) = True"
| "json_truthy (JObj kvs) = True"

section \<open>Regular expressions of the URL normaliser\<close>

text \<open>
  The three patterns have the same shape, \<^verbatim>\<open>/LITERAL([^/?#]+)/i\<close>: a literal, matched
  without regard to case, followed by a greedy, non-empty run of characters other than
  \<^verbatim>\<open>/\<close>, \<^verbatim>\<open>?\<close> and \<^verbatim>\<open>#\<close>. \<open>regex_match lit s\<close> is
  \<^verbatim>\<open>s.match(...)\<close> reduced to its first capture group: the leftmost position at
  which the pattern matches wins.
\<close>

definition id_char :: "char \<Rightarrow> bool" where
  "id_char c = (c \<noteq> CHR ''/'' \<and> c \<noteq> CHR ''?'' \<and> c \<noteq> CHR ''#'')"

fun prefix_ci :: "string \<Rightarrow> string \<Rightarrow> bool" where
  "prefix_ci [] s = True"
| "prefix_ci (p # ps) [] = False"
| "prefix_ci (p # ps) (c # cs) = (to_lower_char p = to_lower_char c \<and> prefix_ci ps cs)"

definition match_here :: "string \<Rightarrow> string \<Rightarrow> string option" where
  "match_here lit s =
     (if prefix_ci lit s
      then (let g = takeWhile id_char (drop (length lit) s)
            in if g = [] then None else Some g)
      else None)"

fun regex_match :: "string \<Rightarrow> string \<Rightarrow> string option" where
  "regex_match lit [] = match_here lit []"
| "regex_match lit (c # cs) =
     (case match_here lit (c # cs) of
        Some g \<Rightarrow> Some g
      | None \<Rightarrow> regex_match lit cs)"

definition in_pattern :: string where
  "in_pattern = ''linkedin.com/in/''"

definition sales_lead_pattern :: string where
  "sales_lead_pattern = ''linkedin.com/sales/lead/''"

definition sales_people_pattern :: string where
  "sales_people_pattern = ''linkedin.com/sales/people/''"

definition canonical_prefix :: string where
  "canonical_prefix = ''https://www.linkedin.com/in/''"

section \<open>ContactMatcherService: URL normalisation and variations\<close>

text \<open>The \<^verbatim>\<open>for (const pattern of patterns)\<close> loop: the first pattern that matches decides.\<close>

fun first_capture :: "string list \<Rightarrow> string \<Rightarrow> string option" where
  "first_capture [] s = None"
| "first_capture (p # ps) s =
     (case regex_match p s of
        Some g \<Rightarrow> Some g
      | None \<Rightarrow> first_capture ps s)"

definition normalizeLinkedInUrl :: "string option \<Rightarrow> string option \<Rightarrow> string option" where
  "normalizeLinkedInUrl profileUrl publicId =
     (if truthy publicId then Some (canonical_prefix @ the publicId)
      else if \<not> truthy profileUrl then None
      else (case first_capture [in_pattern, sales_lead_pattern, sales_people_pattern]
                    (the profileUrl) of
              Some g \<Rightarrow> Some (canonical_prefix @ g)
            | None \<Rightarrow> profileUrl))"

text \<open>\<^verbatim>\<open>[...new Set(variations)]\<close>: duplicates dropped, first occurrences kept in order.\<close>

definition dedup :: "'a list \<Rightarrow> 'a list" where
  "dedup xs = foldl (\<lambda>acc x. if x \<in> set acc then acc else acc @ [x]) [] xs"

definition getLinkedInUrlVariations :: "string \<Rightarrow> string list" where
  "getLinkedInUrlVariations url =
     dedup
       (case regex_match in_pattern url of
          None \<Rightarrow> [url]
        | Some publicId \<Rightarrow>
            [url,
             ''https://www.linkedin.com/in/'' @ publicId,
             ''https://linkedin.com/in/'' @ publicId,
             ''http://www.linkedin.com/in/'' @ publicId,
             ''http://linkedin.com/in/'' @ publicId,
             ''https://www.linkedin.com/in/'' @ publicId @ ''/'',
             ''linkedin.com/in/'' @ publicId])"

text \<open>
  A URL is in canonical form when it is \<^verbatim>\<open>https://www.linkedin.com/in/{id}\<close> for a
  non-empty identifier without \<^verbatim>\<open>/\<close>, \<^verbatim>\<open>?\<close> or \<^verbatim>\<open>#\<close>: the forms the patterns
  rewrite a profile URL to.
\<close>

definition is_canonical :: "string \<Rightarrow> bool" where
  "is_canonical url =
     (take (length canonical_prefix) url = canonical_prefix
      \<and> drop (length canonical_prefix) url \<noteq> []
      \<and> list_all id_char (drop (length canonical_prefix) url))"

section \<open>OutreachSyncController: the authenticator\<close>

datatype js_error = TypeError | RangeError

text \<open>
  The value a request carries as its secret, by what \<^verbatim>\<open>Buffer.from\<close> makes of it.
  The schema of the single event guarantees a string; the batch body is not validated, so
  there the value can be any JSON value, or be missing:
  \<^item> a string, which \<^verbatim>\<open>Buffer.from\<close> turns into its bytes;
  \<^item> a value that is no string and that \<^verbatim>\<open>Buffer.from\<close> converts all the same (an
    array, an array-like object, the JSON form \<^verbatim>\<open>{type: 'Buffer', data: [...]}\<close> of a
    buffer), given by the bytes it is converted to;
  \<^item> any other value (missing, \<^verbatim>\<open>null\<close>, a number, a boolean, another object), on
    which \<^verbatim>\<open>Buffer.from\<close> throws a \<^verbatim>\<open>TypeError\<close>.
\<close>

datatype secret_value = SecretString string | SecretBytes string | SecretOther

text \<open>An array of numbers between 0 and 255, such as \<^verbatim>\<open>[115, 51]\<close>: one byte each.\<close>

definition byte_array :: "nat list \<Rightarrow> secret_value" where
  "byte_array ns = SecretBytes (map char_of ns)"

definition Buffer_from :: "secret_value \<Rightarrow> js_error + string" where
  "Buffer_from v =
     (case v of
        SecretString x \<Rightarrow> Inr x
      | SecretBytes b \<Rightarrow> Inr b
      | SecretOther \<Rightarrow> Inl TypeError)"

text \<open>
  \<^verbatim>\<open>crypto.timingSafeEqual\<close>: a \<^verbatim>\<open>RangeError\<close> on buffers of different length,
  otherwise every byte pair is compared, whatever the earlier pairs gave.
\<close>

definition timingSafeEqual :: "string \<Rightarrow> string \<Rightarrow> js_error + bool" where
  "timingSafeEqual a b =
     (if length a \<noteq> length b then Inl RangeError
      else Inr (foldl (\<lambda>acc (x, y). acc \<and> x = y) True (zip a b)))"

definition verifyWebhookSecret :: "string \<Rightarrow> secret_value \<Rightarrow> bool" where
  "verifyWebhookSecret webhookSecret providedSecret =
     (case Buffer_from (SecretString webhookSecret) of
        Inl e \<Rightarrow> False
      | Inr expected \<Rightarrow>
          (case Buffer_from providedSecret of
             Inl e \<Rightarrow> False
           | Inr provided \<Rightarrow>
               if length expected \<noteq> length provided then False
               else (case timingSafeEqual expected provided of
                       Inl e \<Rightarrow> False
                     | Inr r \<Rightarrow> r)))"

text \<open>
  The constructor reads \<^verbatim>\<open>process.env.OUTREACH_WEBHOOK_SECRET || ''\<close> and returns the
  configured secret together with the warnings it logged.
\<close>

definition auth_disabled_warning :: string where
  "auth_disabled_warning = ''OUTREACH_WEBHOOK_SECRET not set - webhook authentication disabled''"

definition controller_constructor :: "string option \<Rightarrow> string \<times> string list" where
  "controller_constructor env_secret =
     (let webhookSecret = (if truthy env_secret then the env_secret else [])
      in (webhookSecret, if webhookSecret = [] then [auth_disabled_warning] else []))"

text \<open>
  The guard of both handlers, \<^verbatim>\<open>if (this.webhookSecret && !this.verifyWebhookSecret(s))
  throw new UnauthorizedException\<close>: \<open>True\<close> when the request may proceed.
\<close>

definition secret_accepted :: "string \<Rightarrow> secret_value \<Rightarrow> bool" where
  "secret_accepted webhookSecret providedSecret =
     (\<not> (webhookSecret \<noteq> [] \<and> \<not> verifyWebhookSecret webhookSecret providedSecret))"

section \<open>Data model\<close>

text \<open>The inbound identity record, \<^verbatim>\<open>ConnectionAcceptedPayload['connection']\<close>.\<close>

record connection =
  conn_id :: string
  urn_id :: string
  public_id :: "string option"
  name :: string
  first_name :: "string option"
  last_name :: "string option"
  headline :: "string option"
  profile_url :: string
  profile_pic_url :: "string option"
  company :: "string option"
  job_title :: "string option"
  location :: "string option"
  industry :: "string option"
  email :: "string option"
  phone :: "string option"
  connected_on :: string
  skills :: "string list option"
  languages :: "string list option"
  work_experience :: "json option"
  education :: "json option"

text \<open>
  The JSON column \<^verbatim>\<open>customFields\<close>. The keys this integration owns are fields of the
  record, with the types the services write; \<open>None\<close> is an absent key (a key whose
  value is \<^verbatim>\<open>undefined\<close> is not serialised). Every other key lives in \<open>otherKeys\<close>.
\<close>

record custom_fields =
  linkedinUrnId :: "string option"
  linkedinPublicId :: "string option"
  linkedinConnected :: "string option"
  linkedinHeadline :: "string option"
  linkedinLocation :: "string option"
  linkedinProfilePhoto :: "string option"
  linkedinIndustry :: "string option"
  linkedinSkills :: "string list option"
  linkedinLanguages :: "string list option"
  linkedinWorkExperience :: "json option"
  linkedinEducation :: "json option"
  syncedFromOutreach :: "bool option"
  lastSyncedAt :: "string option"
  otherKeys :: "(string \<times> json) list"

definition empty_custom_fields :: custom_fields where
  "empty_custom_fields =
     \<lparr>linkedinUrnId = None, linkedinPublicId = None, linkedinConnected = None,
      linkedinHeadline = None, linkedinLocation = None, linkedinProfilePhoto = None,
      linkedinIndustry = None, linkedinSkills = None, linkedinLanguages = None,
      linkedinWorkExperience = None, linkedinEducation = None, syncedFromOutreach = None,
      lastSyncedAt = None, otherKeys = []\<rparr>"

text \<open>
  Modelled from the spec: the schema of the table \<^verbatim>\<open>crm.contacts\<close> is not among the
  sources. A row has the columns the services read or write, and the user-managed ones the
  specification names: lead status, owner and priority. The primary key, a UUID the
  storage issues, is a number here.
\<close>

record contact =
  c_id :: nat
  organizationId :: string
  firstName :: string
  lastName :: string
  c_email :: "string option"
  c_phone :: "string option"
  jobTitle :: "string option"
  linkedinUrl :: "string option"
  profileImageUrl :: "string option"
  isLead :: bool
  leadSource :: "string option"
  leadStatus :: "string option"
  ownerId :: "string option"
  priority :: "string option"
  customFields :: "custom_fields option"

text \<open>\<^verbatim>\<open>MatchResult['existing_data']\<close>: the six columns every lookup selects.\<close>

record contact_snapshot =
  ex_id :: nat
  ex_firstName :: string
  ex_lastName :: string
  ex_email :: "string option"
  ex_linkedinUrl :: "string option"
  ex_customFields :: "custom_fields option"

datatype match_type = URN_ID | LINKEDIN_URL | EMAIL | NEW

record match_result =
  found :: bool
  mr_contact_id :: "nat option"
  mr_match_type :: "match_type option"
  existing_data :: "contact_snapshot option"

datatype sync_action = Created | Updated | Skipped

record sync_result =
  success :: bool
  action :: sync_action
  contact_id :: "nat option"
  match_type :: "match_type option"
  message :: "string option"
  error :: "string option"

text \<open>
  The \<^verbatim>\<open>data\<close> argument of \<^verbatim>\<open>prisma.contact.update\<close>: one optional assignment per
  column of the row above; \<open>None\<close> (the property is missing or \<^verbatim>\<open>undefined\<close>) leaves
  the column as it is.
\<close>

record update_data =
  u_firstName :: "string option"
  u_lastName :: "string option"
  u_email :: "string option option"
  u_phone :: "string option option"
  u_jobTitle :: "string option option"
  u_linkedinUrl :: "string option option"
  u_profileImageUrl :: "string option option"
  u_isLead :: "bool option"
  u_leadSource :: "string option option"
  u_leadStatus :: "string option option"
  u_ownerId :: "string option option"
  u_priority :: "string option option"
  u_customFields :: "custom_fields option option"

definition empty_update :: update_data where
  "empty_update =
     \<lparr>u_firstName = None, u_lastName = None, u_email = None, u_phone = None,
      u_jobTitle = None, u_linkedinUrl = None, u_profileImageUrl = None, u_isLead = None,
      u_leadSource = None, u_leadStatus = None, u_ownerId = None, u_priority = None,
      u_customFields = None\<rparr>"

record activity =
  a_organizationId :: string
  a_contactId :: nat
  a_type :: string
  a_title :: string
  a_description :: string
  a_source :: string
  a_connectionId :: string
  a_linkedinUrl :: string
  a_connectedOn :: string

section \<open>The record store\<close>

text \<open>
  The storage behind \<^verbatim>\<open>PrismaService\<close>: the rows, the next primary key, and, since
  every call may throw, one schedule of failures for the reads, one for the writes of a
  contact and one for the writes of an activity. A call takes the head of its schedule
  (\<open>True\<close>: the call throws); an empty schedule never fails. \<open>calls\<close> logs every
  call that was made.
\<close>

datatype db_call =
    QueryByUrn string string
  | FindFirstByUrl string "string list"
  | FindFirstByEmail string string
  | FindUniqueJobTitle nat
  | ContactCreate
  | ContactUpdate nat
  | ActivityCreate nat

record store =
  contacts :: "contact list"
  activities :: "activity list"
  next_id :: nat
  read_faults :: "bool list"
  write_faults :: "bool list"
  activity_faults :: "bool list"
  calls :: "db_call list"

definition take_fault :: "bool list \<Rightarrow> bool \<times> bool list" where
  "take_fault fs = (case fs of [] \<Rightarrow> (False, []) | f # r \<Rightarrow> (f, r))"

definition storage_failure :: string where
  "storage_failure = ''storage error''"

definition begin_read :: "db_call \<Rightarrow> store \<Rightarrow> bool \<times> store" where
  "begin_read c s =
     (fst (take_fault (read_faults s)),
      s\<lparr>read_faults := snd (take_fault (read_faults s)), calls := calls s @ [c]\<rparr>)"

definition begin_write :: "db_call \<Rightarrow> store \<Rightarrow> bool \<times> store" where
  "begin_write c s =
     (fst (take_fault (write_faults s)),
      s\<lparr>write_faults := snd (take_fault (write_faults s)), calls := calls s @ [c]\<rparr>)"

definition begin_activity_write :: "db_call \<Rightarrow> store \<Rightarrow> bool \<times> store" where
  "begin_activity_write c s =
     (fst (take_fault (activity_faults s)),
      s\<lparr>activity_faults := snd (take_fault (activity_faults s)), calls := calls s @ [c]\<rparr>)"

text \<open>
  The raw query of \<^verbatim>\<open>matchByUrnId\<close>:
  \<^verbatim>\<open>WHERE organization_id = $1::uuid AND custom_fields->>'linkedinUrnId' = $2 LIMIT 1\<close>.
  Organisation identifiers are UUIDs, as the schema of the payload demands, so the cast
  succeeds. Rows come in the order of the table, here and in \<^verbatim>\<open>findFirst\<close>.
\<close>

definition urn_row :: "string \<Rightarrow> string \<Rightarrow> contact \<Rightarrow> bool" where
  "urn_row org urnId c =
     (organizationId c = org
      \<and> (case customFields c of None \<Rightarrow> False | Some cf \<Rightarrow> linkedinUrnId cf = Some urnId))"

definition queryRaw_by_urn :: "string \<Rightarrow> string \<Rightarrow> store \<Rightarrow> (string + contact list) \<times> store" where
  "queryRaw_by_urn org urnId s =
     (case begin_read (QueryByUrn org urnId) s of
        (failed, s') \<Rightarrow>
          (if failed then Inl storage_failure
           else Inr (take 1 (filter (urn_row org urnId) (contacts s'))), s'))"

text \<open>\<^verbatim>\<open>contact.findFirst({where: {organizationId, linkedinUrl: {in: urlVariations}}})\<close>.\<close>

definition url_row :: "string \<Rightarrow> string list \<Rightarrow> contact \<Rightarrow> bool" where
  "url_row org urls c =
     (organizationId c = org
      \<and> (case linkedinUrl c of None \<Rightarrow> False | Some u \<Rightarrow> u \<in> set urls))"

definition findFirst_by_url :: "string \<Rightarrow> string list \<Rightarrow> store \<Rightarrow> (string + contact option) \<times> store" where
  "findFirst_by_url org urls s =
     (case begin_read (FindFirstByUrl org urls) s of
        (failed, s') \<Rightarrow>
          (if failed then Inl storage_failure
           else Inr (find (url_row org urls) (contacts s')), s'))"

text \<open>\<^verbatim>\<open>contact.findFirst({where: {organizationId, email}})\<close>.\<close>

definition email_row :: "string \<Rightarrow> string \<Rightarrow> contact \<Rightarrow> bool" where
  "email_row org e c = (organizationId c = org \<and> c_email c = Some e)"

definition findFirst_by_email :: "string \<Rightarrow> string \<Rightarrow> store \<Rightarrow> (string + contact option) \<times> store" where
  "findFirst_by_email org e s =
     (case begin_read (FindFirstByEmail org e) s of
        (failed, s') \<Rightarrow>
          (if failed then Inl storage_failure
           else Inr (find (email_row org e) (contacts s')), s'))"

text \<open>\<^verbatim>\<open>contact.findUnique({where: {id}, select: {jobTitle: true}})\<close>.\<close>

definition findUnique_jobTitle :: "nat \<Rightarrow> store \<Rightarrow> (string + string option option) \<times> store" where
  "findUnique_jobTitle cid s =
     (case begin_read (FindUniqueJobTitle cid) s of
        (failed, s') \<Rightarrow>
          (if failed then Inl storage_failure
           else Inr (map_option jobTitle (find (\<lambda>c. c_id c = cid) (contacts s'))), s'))"

text \<open>\<^verbatim>\<open>contact.create\<close>: the storage issues the primary key and appends the row.\<close>

definition contact_create :: "contact \<Rightarrow> store \<Rightarrow> (string + nat) \<times> store" where
  "contact_create row s =
     (case begin_write ContactCreate s of
        (failed, s') \<Rightarrow>
          (if failed then (Inl storage_failure, s')
           else (Inr (next_id s'),
                 s'\<lparr>contacts := contacts s' @ [row\<lparr>c_id := next_id s'\<rparr>],
                    next_id := Suc (next_id s')\<rparr>)))"

text \<open>
  \<^verbatim>\<open>contact.update({where: {id}, data})\<close>: throws when no row has the key, otherwise
  assigns the columns that \<^verbatim>\<open>data\<close> names.
\<close>

fun assign :: "'a option \<Rightarrow> 'a \<Rightarrow> 'a" where
  "assign None old = old"
| "assign (Some v) old = v"

definition apply_update :: "update_data \<Rightarrow> contact \<Rightarrow> contact" where
  "apply_update u c =
     c\<lparr>firstName := assign (u_firstName u) (firstName c),
       lastName := assign (u_lastName u) (lastName c),
       c_email := assign (u_email u) (c_email c),
       c_phone := assign (u_phone u) (c_phone c),
       jobTitle := assign (u_jobTitle u) (jobTitle c),
       linkedinUrl := assign (u_linkedinUrl u) (linkedinUrl c),
       profileImageUrl := assign (u_profileImageUrl u) (profileImageUrl c),
       isLead := assign (u_isLead u) (isLead c),
       leadSource := assign (u_leadSource u) (leadSource c),
       leadStatus := assign (u_leadStatus u) (leadStatus c),
       ownerId := assign (u_ownerId u) (ownerId c),
       priority := assign (u_priority u) (priority c),
       customFields := assign (u_customFields u) (customFields c)\<rparr>"

definition record_not_found :: string where
  "record_not_found = ''Record to update not found.''"

definition contact_update :: "nat \<Rightarrow> update_data \<Rightarrow> store \<Rightarrow> (string + unit) \<times> store" where
  "contact_update cid u s =
     (case begin_write (ContactUpdate cid) s of
        (failed, s') \<Rightarrow>
          (if failed then (Inl storage_failure, s')
           else if find (\<lambda>c. c_id c = cid) (contacts s') = None then (Inl record_not_found, s')
           else (Inr (),
                 s'\<lparr>contacts :=
                      map (\<lambda>c. if c_id c = cid then apply_update u c else c) (contacts s')\<rparr>)))"

text \<open>\<^verbatim>\<open>activity.create\<close>.\<close>

definition activity_create :: "activity \<Rightarrow> store \<Rightarrow> (string + unit) \<times> store" where
  "activity_create a s =
     (case begin_activity_write (ActivityCreate (a_contactId a)) s of
        (failed, s') \<Rightarrow>
          (if failed then (Inl storage_failure, s')
           else (Inr (), s'\<lparr>activities := activities s' @ [a]\<rparr>)))"

section \<open>ContactMatcherService\<close>

definition snapshot :: "contact \<Rightarrow> contact_snapshot" where
  "snapshot c =
     \<lparr>ex_id = c_id c, ex_firstName = firstName c, ex_lastName = lastName c,
      ex_email = c_email c, ex_linkedinUrl = linkedinUrl c, ex_customFields = customFields c\<rparr>"

text \<open>Each lookup catches what the storage throws and answers \<^verbatim>\<open>null\<close> (\<open>None\<close>) then.\<close>

definition matchByUrnId :: "string \<Rightarrow> string \<Rightarrow> store \<Rightarrow> contact_snapshot option \<times> store" where
  "matchByUrnId org urnId s =
     (case queryRaw_by_urn org urnId s of
        (Inl e, s') \<Rightarrow> (None, s')
      | (Inr rows, s') \<Rightarrow>
          (case rows of
             [] \<Rightarrow> (None, s')
           | c # rest \<Rightarrow> (Some (snapshot c), s')))"

definition matchByLinkedInUrl :: "string \<Rightarrow> string \<Rightarrow> store \<Rightarrow> contact_snapshot option \<times> store" where
  "matchByLinkedInUrl org url s =
     (case findFirst_by_url org (getLinkedInUrlVariations url) s of
        (Inl e, s') \<Rightarrow> (None, s')
      | (Inr r, s') \<Rightarrow> (map_option snapshot r, s'))"

definition matchByEmail ::
  "builtins \<Rightarrow> string \<Rightarrow> string \<Rightarrow> store \<Rightarrow> contact_snapshot option \<times> store" where
  "matchByEmail js org e s =
     (case findFirst_by_email org (toLowerCase js e) s of
        (Inl err, s') \<Rightarrow> (None, s')
      | (Inr r, s') \<Rightarrow> (map_option snapshot r, s'))"

definition match_found :: "match_type \<Rightarrow> contact_snapshot \<Rightarrow> match_result" where
  "match_found kind e =
     \<lparr>found = True, mr_contact_id = Some (ex_id e), mr_match_type = Some kind,
      existing_data = Some e\<rparr>"

definition no_match :: match_result where
  "no_match = \<lparr>found = False, mr_contact_id = None, mr_match_type = Some NEW, existing_data = None\<rparr>"

definition findMatch ::
  "builtins \<Rightarrow> string \<Rightarrow> connection \<Rightarrow> store \<Rightarrow> match_result \<times> store" where
  "findMatch js org connectionData s =
     (case matchByUrnId org (urn_id connectionData) s of
        (Some urnMatch, s1) \<Rightarrow> (match_found URN_ID urnMatch, s1)
      | (None, s1) \<Rightarrow>
          (case (let normalizedUrl = normalizeLinkedInUrl (Some (profile_url connectionData))
                                       (public_id connectionData)
                 in if truthy normalizedUrl then matchByLinkedInUrl org (the normalizedUrl) s1
                    else (None, s1)) of
             (Some urlMatch, s2) \<Rightarrow> (match_found LINKEDIN_URL urlMatch, s2)
           | (None, s2) \<Rightarrow>
               (if truthy (email connectionData)
                then (case matchByEmail js org (the (email connectionData)) s2 of
                        (Some emailMatch, s3) \<Rightarrow> (match_found EMAIL emailMatch, s3)
                      | (None, s3) \<Rightarrow> (no_match, s3))
                else (no_match, s2))))"

section \<open>ContactMergerService\<close>

fun join_space :: "string list \<Rightarrow> string" where
  "join_space [] = []"
| "join_space [x] = x"
| "join_space (x # y # ys) = x @ '' '' @ join_space (y # ys)"

text \<open>
  \<^verbatim>\<open>split\<close> never answers an empty array, so the first case below does not occur.
\<close>

definition parseName ::
  "builtins \<Rightarrow> string \<Rightarrow> string option \<Rightarrow> string option \<Rightarrow> string \<times> string" where
  "parseName js fullName givenFirst givenLast =
     (if truthy givenFirst \<and> truthy givenLast then (the givenFirst, the givenLast)
      else (case split_whitespace js (trim js fullName) of
              [] \<Rightarrow> ([], [])
            | [p] \<Rightarrow> (p, [])
            | p # rest \<Rightarrow> (p, join_space rest)))"

text \<open>The merger's own normaliser knows the \<^verbatim>\<open>/in/\<close> shape only.\<close>

definition merger_normalizeLinkedInUrl :: "string option \<Rightarrow> string option \<Rightarrow> string option" where
  "merger_normalizeLinkedInUrl profileUrl publicId =
     (if truthy publicId then Some (canonical_prefix @ the publicId)
      else if \<not> truthy profileUrl then None
      else (case regex_match in_pattern (the profileUrl) of
              Some g \<Rightarrow> Some (canonical_prefix @ g)
            | None \<Rightarrow> profileUrl))"

definition skipped_result :: "string \<Rightarrow> sync_result" where
  "skipped_result msg =
     \<lparr>success = False, action = Skipped, contact_id = None, match_type = None,
      message = None, error = Some msg\<rparr>"

text \<open>\<open>now\<close> is the reading of the clock, \<^verbatim>\<open>new Date().toISOString()\<close>.\<close>

definition create_linkedinData :: "connection \<Rightarrow> string \<Rightarrow> custom_fields" where
  "create_linkedinData connectionData now =
     \<lparr>linkedinUrnId = Some (urn_id connectionData),
      linkedinPublicId = public_id connectionData,
      linkedinConnected = Some (connected_on connectionData),
      linkedinHeadline = headline connectionData,
      linkedinLocation = location connectionData,
      linkedinProfilePhoto = profile_pic_url connectionData,
      linkedinIndustry = industry connectionData,
      linkedinSkills = Some (case skills connectionData of Some v \<Rightarrow> v | None \<Rightarrow> []),
      linkedinLanguages = Some (case languages connectionData of Some v \<Rightarrow> v | None \<Rightarrow> []),
      linkedinWorkExperience = work_experience connectionData,
      linkedinEducation = education connectionData,
      syncedFromOutreach = Some True,
      lastSyncedAt = Some now,
      otherKeys = []\<rparr>"

text \<open>
  The row \<^verbatim>\<open>createContact\<close> hands to \<^verbatim>\<open>contact.create\<close>. The columns it does not
  name (owner, priority) are left to the storage, \<open>None\<close> here; the key is issued by
  the storage.
\<close>

definition create_row :: "builtins \<Rightarrow> string \<Rightarrow> connection \<Rightarrow> string \<Rightarrow> contact" where
  "create_row js org connectionData now =
     \<lparr>c_id = 0,
      organizationId = org,
      firstName = fst (parseName js (name connectionData) (first_name connectionData)
                         (last_name connectionData)),
      lastName = snd (parseName js (name connectionData) (first_name connectionData)
                        (last_name connectionData)),
      c_email = js_or (map_option (toLowerCase js) (email connectionData)) None,
      c_phone = js_or (phone connectionData) None,
      jobTitle = js_or (job_title connectionData) None,
      linkedinUrl = merger_normalizeLinkedInUrl (Some (profile_url connectionData))
                      (public_id connectionData),
      profileImageUrl = js_or (profile_pic_url connectionData) None,
      isLead = True,
      leadSource = Some ''LINKEDIN_OUTREACH'',
      leadStatus = Some ''NEW'',
      ownerId = None,
      priority = None,
      customFields = Some (create_linkedinData connectionData now)\<rparr>"

definition createContact ::
  "builtins \<Rightarrow> string \<Rightarrow> connection \<Rightarrow> string \<Rightarrow> store \<Rightarrow> sync_result \<times> store" where
  "createContact js org connectionData now s =
     (case contact_create (create_row js org connectionData now) s of
        (Inl e, s') \<Rightarrow> (skipped_result e, s')
      | (Inr new_id, s') \<Rightarrow>
          (\<lparr>success = True, action = Created, contact_id = Some new_id,
            match_type = Some NEW,
            message = Some (''Created new contact: ''
               @ fst (parseName js (name connectionData) (first_name connectionData)
                        (last_name connectionData))
               @ '' ''
               @ snd (parseName js (name connectionData) (first_name connectionData)
                        (last_name connectionData))),
            error = None\<rparr>, s'))"

definition merge_linkedinData :: "custom_fields \<Rightarrow> connection \<Rightarrow> string \<Rightarrow> custom_fields" where
  "merge_linkedinData existingCustomFields connectionData now =
     existingCustomFields
       \<lparr>linkedinUrnId := Some (urn_id connectionData),
        linkedinPublicId := public_id connectionData,
        linkedinConnected := Some (connected_on connectionData),
        linkedinHeadline := headline connectionData,
        linkedinLocation := location connectionData,
        linkedinProfilePhoto := profile_pic_url connectionData,
        linkedinIndustry := industry connectionData,
        linkedinSkills :=
          Some (case skills connectionData of
                  Some v \<Rightarrow> v
                | None \<Rightarrow> (case linkedinSkills existingCustomFields of
                             Some v \<Rightarrow> v
                           | None \<Rightarrow> [])),
        linkedinLanguages :=
          Some (case languages connectionData of
                  Some v \<Rightarrow> v
                | None \<Rightarrow> (case linkedinLanguages existingCustomFields of
                             Some v \<Rightarrow> v
                           | None \<Rightarrow> [])),
        linkedinWorkExperience :=
          (case work_experience connectionData of
             Some v \<Rightarrow> if json_truthy v then Some v
                       else linkedinWorkExperience existingCustomFields
           | None \<Rightarrow> linkedinWorkExperience existingCustomFields),
        linkedinEducation :=
          (case education connectionData of
             Some v \<Rightarrow> if json_truthy v then Some v
                       else linkedinEducation existingCustomFields
           | None \<Rightarrow> linkedinEducation existingCustomFields),
        syncedFromOutreach := Some True,
        lastSyncedAt := Some now\<rparr>"

text \<open>
  The \<^verbatim>\<open>updateData\<close> object of \<^verbatim>\<open>mergeContact\<close>, built in the order of the source.
  \<open>currentJobTitle\<close> is what \<^verbatim>\<open>findUnique\<close> answered (\<open>None\<close>: no such row).
\<close>

definition merge_updateData ::
  "builtins \<Rightarrow> contact_snapshot \<Rightarrow> connection \<Rightarrow> bool \<Rightarrow> string \<Rightarrow> string option option
     \<Rightarrow> update_data" where
  "merge_updateData js existing connectionData forceUpdate now currentJobTitle =
     (let existingCustomFields =
            (case ex_customFields existing of Some cf \<Rightarrow> cf | None \<Rightarrow> empty_custom_fields);
          linkedinData = merge_linkedinData existingCustomFields connectionData now;
          u0 = empty_update
                 \<lparr>u_profileImageUrl :=
                    Some (js_or (profile_pic_url connectionData) (ex_linkedinUrl existing)),
                  u_linkedinUrl :=
                    Some (js_or (merger_normalizeLinkedInUrl (Some (profile_url connectionData))
                                   (public_id connectionData))
                            (ex_linkedinUrl existing))\<rparr>;
          parsed = parseName js (name connectionData) (first_name connectionData)
                     (last_name connectionData);
          u1 = (if forceUpdate \<or> ex_firstName existing = []
                then u0\<lparr>u_firstName := Some (fst parsed)\<rparr> else u0);
          u2 = (if forceUpdate \<or> ex_lastName existing = []
                then u1\<lparr>u_lastName := Some (snd parsed)\<rparr> else u1);
          u3 = (if forceUpdate \<or> \<not> truthy (ex_email existing)
                then u2\<lparr>u_email :=
                          Some (js_or (map_option (toLowerCase js) (email connectionData))
                                  (ex_email existing))\<rparr>
                else u2);
          u4 = (if forceUpdate \<or> \<not> truthy (case currentJobTitle of None \<Rightarrow> None | Some j \<Rightarrow> j)
                then u3\<lparr>u_jobTitle := map_option Some (job_title connectionData)\<rparr>
                else u3)
      in u4\<lparr>u_customFields := Some (Some linkedinData)\<rparr>)"

definition mergeContact ::
  "builtins \<Rightarrow> match_result \<Rightarrow> connection \<Rightarrow> bool \<Rightarrow> string \<Rightarrow> store
     \<Rightarrow> sync_result \<times> store" where
  "mergeContact js matchResult connectionData forceUpdate now s =
     (case (mr_contact_id matchResult, existing_data matchResult) of
        (Some cid, Some existing) \<Rightarrow>
          (case findUnique_jobTitle cid s of
             (Inl e, s1) \<Rightarrow> (skipped_result e, s1)
           | (Inr currentJobTitle, s1) \<Rightarrow>
               (case contact_update cid
                       (merge_updateData js existing connectionData forceUpdate now currentJobTitle)
                       s1 of
                  (Inl e, s2) \<Rightarrow> (skipped_result e, s2)
                | (Inr u, s2) \<Rightarrow>
                    (\<lparr>success = True, action = Updated, contact_id = Some cid,
                      match_type = mr_match_type matchResult,
                      message = Some (''Updated existing contact: ''
                        @ fst (parseName js (name connectionData) (first_name connectionData)
                                 (last_name connectionData))
                        @ '' ''
                        @ snd (parseName js (name connectionData) (first_name connectionData)
                                 (last_name connectionData))),
                      error = None\<rparr>, s2)))
      | _ \<Rightarrow> (skipped_result ''No existing contact to merge with'', s))"

text \<open>The activity write is best effort: what it throws is logged and swallowed.\<close>

definition createSyncActivity ::
  "string \<Rightarrow> nat \<Rightarrow> sync_action \<Rightarrow> connection \<Rightarrow> store \<Rightarrow> store" where
  "createSyncActivity org contactId act connectionData s =
     snd (activity_create
            \<lparr>a_organizationId = org,
             a_contactId = contactId,
             a_type = ''NOTE'',
             a_title = (if act = Created then ''Contact created from LinkedIn connection''
                        else ''Contact updated from LinkedIn sync''),
             a_description = ''LinkedIn connection accepted. Profile: '' @ name connectionData,
             a_source = ''OUTREACH_SYNC'',
             a_connectionId = conn_id connectionData,
             a_linkedinUrl = profile_url connectionData,
             a_connectedOn = connected_on connectionData\<rparr> s)"

section \<open>OutreachSyncController: the handlers\<close>

record source_info =
  organization_id :: string
  workspace_id :: string
  integration_id :: string
  campaign_id :: "string option"

record payload =
  webhook_secret :: string
  event_type :: string
  timestamp :: string
  p_source :: source_info
  p_connection :: connection

text \<open>
  The body of a request is \<^verbatim>\<open>unknown\<close> until \<^verbatim>\<open>ConnectionAcceptedPayloadSchema\<close>
  has parsed it: either it conforms to the schema, and then it is the typed payload, or it
  does not, whatever JSON it carries.
\<close>

datatype raw_body = WellFormed payload | Malformed json

definition safeParse :: "raw_body \<Rightarrow> payload option" where
  "safeParse body = (case body of WellFormed p \<Rightarrow> Some p | Malformed j \<Rightarrow> None)"

datatype http_error = BadRequestException string | UnauthorizedException string

text \<open>
  Steps 1 and 2 of both handlers: look for an existing contact, then merge into it
  (\<^verbatim>\<open>forceUpdate\<close> is \<^verbatim>\<open>false\<close>) or create a new one.
\<close>

definition match_and_write ::
  "builtins \<Rightarrow> string \<Rightarrow> connection \<Rightarrow> string \<Rightarrow> store \<Rightarrow> sync_result \<times> store" where
  "match_and_write js org connectionData now s =
     (case findMatch js org connectionData s of
        (matchResult, s1) \<Rightarrow>
          if found matchResult then mergeContact js matchResult connectionData False now s1
          else createContact js org connectionData now s1)"

text \<open>Step 3: \<^verbatim>\<open>if (result.success && result.contact_id) await createSyncActivity(...)\<close>.\<close>

definition log_sync_activity :: "string \<Rightarrow> connection \<Rightarrow> sync_result \<Rightarrow> store \<Rightarrow> store" where
  "log_sync_activity org connectionData result s =
     (case contact_id result of
        Some cid \<Rightarrow>
          if success result then createSyncActivity org cid (action result) connectionData s
          else s
      | None \<Rightarrow> s)"

text \<open>
  \<^verbatim>\<open>POST /webhooks/outreach/connection-accepted\<close>. \<open>Inl\<close> is the exception the
  handler throws. Neither service throws, so the \<^verbatim>\<open>catch\<close> around steps 1 to 3 has
  no branch here.
\<close>

definition handleConnectionAccepted ::
  "builtins \<Rightarrow> string \<Rightarrow> raw_body \<Rightarrow> string \<Rightarrow> store
     \<Rightarrow> (http_error + sync_result) \<times> store" where
  "handleConnectionAccepted js webhookSecret rawPayload now s =
     (case safeParse rawPayload of
        None \<Rightarrow> (Inl (BadRequestException ''Invalid webhook payload''), s)
      | Some p \<Rightarrow>
          if webhookSecret \<noteq> [] \<and> \<not> verifyWebhookSecret webhookSecret (SecretString (webhook_secret p))
          then (Inl (UnauthorizedException ''Invalid webhook secret''), s)
          else (case match_and_write js (organization_id (p_source p)) (p_connection p) now s of
                  (result, s1) \<Rightarrow>
                    (Inr result,
                     log_sync_activity (organization_id (p_source p)) (p_connection p) result s1)))"

text \<open>
  \<^verbatim>\<open>POST /webhooks/outreach/batch-sync\<close>. The body is not validated against a schema:
  the secret may be any value, \<^verbatim>\<open>connections\<close> may be missing or no array (\<open>None\<close>), and
  an element may be \<^verbatim>\<open>null\<close> (\<open>None\<close>), on which \<^verbatim>\<open>findMatch\<close> throws a
  \<^verbatim>\<open>TypeError\<close> before it reaches the storage.
\<close>

record batch_body =
  b_webhook_secret :: secret_value
  b_organization_id :: string
  b_connections :: "connection option list option"

record batch_response =
  total :: nat
  created :: nat
  updated :: nat
  skipped :: nat
  results :: "sync_result list"

definition batch_start :: batch_response where
  "batch_start = \<lparr>total = 0, created = 0, updated = 0, skipped = 0, results = []\<rparr>"

definition destructure_error :: string where
  "destructure_error =
     ''Cannot destructure property '' @ [CHR 0x27] @ ''urn_id'' @ [CHR 0x27] @ '' of ''
       @ [CHR 0x27] @ ''connectionData'' @ [CHR 0x27] @ '' as it is null.''"

text \<open>One turn of the \<^verbatim>\<open>for\<close> loop, with its \<^verbatim>\<open>try\<close> and \<^verbatim>\<open>catch\<close>.\<close>

definition batch_item ::
  "builtins \<Rightarrow> string \<Rightarrow> string \<Rightarrow> connection option \<Rightarrow> batch_response \<times> store
     \<Rightarrow> batch_response \<times> store" where
  "batch_item js org now item st =
     (case st of
        (acc, s) \<Rightarrow>
          (case item of
             None \<Rightarrow>
               (acc\<lparr>results := results acc @ [skipped_result destructure_error],
                    skipped := Suc (skipped acc)\<rparr>, s)
           | Some connectionData \<Rightarrow>
               (case match_and_write js org connectionData now s of
                  (result, s1) \<Rightarrow>
                    ((if action result = Created
                      then acc\<lparr>results := results acc @ [result], created := Suc (created acc)\<rparr>
                      else if action result = Updated
                      then acc\<lparr>results := results acc @ [result], updated := Suc (updated acc)\<rparr>
                      else acc\<lparr>results := results acc @ [result], skipped := Suc (skipped acc)\<rparr>),
                     log_sync_activity org connectionData result s1))))"

fun batch_loop ::
  "builtins \<Rightarrow> string \<Rightarrow> string \<Rightarrow> connection option list \<Rightarrow> batch_response \<times> store
     \<Rightarrow> batch_response \<times> store" where
  "batch_loop js org now [] st = st"
| "batch_loop js org now (item # rest) st =
     batch_loop js org now rest (batch_item js org now item st)"

definition handleBatchSync ::
  "builtins \<Rightarrow> string \<Rightarrow> batch_body \<Rightarrow> string \<Rightarrow> store
     \<Rightarrow> (http_error + batch_response) \<times> store" where
  "handleBatchSync js webhookSecret body now s =
     (if webhookSecret \<noteq> [] \<and> \<not> verifyWebhookSecret webhookSecret (b_webhook_secret body)
      then (Inl (UnauthorizedException ''Invalid webhook secret''), s)
      else (case b_connections body of
              None \<Rightarrow> (Inl (BadRequestException ''Invalid batch payload''), s)
            | Some connections \<Rightarrow>
                (case batch_loop js (b_organization_id body) now connections (batch_start, s) of
                   (acc, s') \<Rightarrow> (Inr (acc\<lparr>total := length connections\<rparr>), s'))))"

section \<open>Observations on a run\<close>

text \<open>The storage calls made between two states of the store.\<close>

definition new_calls :: "store \<Rightarrow> store \<Rightarrow> db_call list" where
  "new_calls s s' = drop (length (calls s)) (calls s')"

text \<open>Whether the \<open>k\<close>-th read from now on throws, by the schedule of the store.\<close>

definition read_fails :: "store \<Rightarrow> nat \<Rightarrow> bool" where
  "read_fails s k = fst (take_fault (drop k (read_faults s)))"

text \<open>The row with a given key, as the storage would answer \<^verbatim>\<open>findUnique\<close>.\<close>

definition contact_by_id :: "nat \<Rightarrow> store \<Rightarrow> contact option" where
  "contact_by_id cid s = find (\<lambda>c. c_id c = cid) (contacts s)"

text \<open>The outcome the batch loop records for one element, processed in the store \<open>s\<close>.\<close>

definition item_result ::
  "builtins \<Rightarrow> string \<Rightarrow> string \<Rightarrow> connection option \<Rightarrow> store \<Rightarrow> sync_result" where
  "item_result js org now item s =
     (case item of
        None \<Rightarrow> skipped_result destructure_error
      | Some connectionData \<Rightarrow> fst (match_and_write js org connectionData now s))"

text \<open>The invariant of the batch loop: the counters count the outcomes by action.\<close>

definition batch_inv :: "batch_response \<Rightarrow> bool" where
  "batch_inv acc =
     (created acc = length (filter (\<lambda>x. action x = Created) (results acc))
      \<and> updated acc = length (filter (\<lambda>x. action x = Updated) (results acc))
      \<and> skipped acc = length (filter (\<lambda>x. action x = Skipped) (results acc))
      \<and> list_all (\<lambda>x. action x = Skipped \<longrightarrow> error x \<noteq> None) (results acc))"

text \<open>One run of the pipeline behind the checks of \<open>handleConnectionAccepted\<close>.\<close>

definition sync_once ::
  "builtins \<Rightarrow> string \<Rightarrow> connection \<Rightarrow> string \<Rightarrow> store \<Rightarrow> sync_result \<times> store" where
  "sync_once js org r now s =
     (fst (match_and_write js org r now s),
      log_sync_activity org r (fst (match_and_write js org r now s))
        (snd (match_and_write js org r now s)))"

text \<open>The keys in use are below the next key the storage issues.\<close>

definition fresh_keys :: "store \<Rightarrow> bool" where
  "fresh_keys s = (\<forall>c \<in> set (contacts s). c_id c < next_id s)"

text \<open>
  The \<^verbatim>\<open>updateData\<close> that \<open>mergeContact\<close> writes to the row \<open>cid\<close> of the store
  \<open>s\<close>: the current job title is read from that row.
\<close>

definition merge_update_of ::
  "builtins \<Rightarrow> contact_snapshot \<Rightarrow> connection \<Rightarrow> bool \<Rightarrow> string \<Rightarrow> nat \<Rightarrow> store
     \<Rightarrow> update_data" where
  "merge_update_of js existing r force now cid s =
     merge_updateData js existing r force now (map_option jobTitle (contact_by_id cid s))"

text \<open>
  A string has no uppercase character when \<^verbatim>\<open>toLowerCase\<close> leaves it as it is.
\<close>

definition no_upper :: "builtins \<Rightarrow> string \<Rightarrow> bool" where
  "no_upper js x = (toLowerCase js x = x)"

section \<open>Example data\<close>

definition blank_connection :: connection where
  "blank_connection =
     \<lparr>conn_id = ''9f8e7d6c-5b4a-4c3d-b2e1-f0a9b8c7d6e5'', urn_id = ''u1'', public_id = None, name = ''Ada Lovelace'',
      first_name = None, last_name = None, headline = None,
      profile_url = ''https://www.linkedin.com/in/ada'', profile_pic_url = None,
      company = None, job_title = None, location = None, industry = None,
      email = None, phone = None, connected_on = ''2024-01-01T00:00:00.000Z'',
      skills = None, languages = None, work_experience = None, education = None\<rparr>"

text \<open>The record of the specification's example.\<close>

definition ada :: connection where
  "ada = blank_connection\<lparr>email := Some ''ada@x.com''\<rparr>"

definition blank_contact :: contact where
  "blank_contact =
     \<lparr>c_id = 0, organizationId = ''7d4e1f6a-2b3c-4d5e-8f90-1a2b3c4d5e6f'', firstName = [], lastName = [], c_email = None,
      c_phone = None, jobTitle = None, linkedinUrl = None, profileImageUrl = None,
      isLead = False, leadSource = None, leadStatus = None, ownerId = None, priority = None,
      customFields = None\<rparr>"

text \<open>Contact A carries the URN \<^verbatim>\<open>u1\<close>, contact B the e-mail address of the example.\<close>

definition contact_A :: contact where
  "contact_A =
     blank_contact
       \<lparr>c_id := 1, firstName := ''Augusta'', lastName := ''King'',
        jobTitle := Some ''Countess'',
        linkedinUrl := Some ''https://www.linkedin.com/in/augusta'',
        profileImageUrl := Some ''https://img.example/old.png'',
        leadStatus := Some ''QUALIFIED'', ownerId := Some ''user-7'', priority := Some ''HIGH'',
        customFields := Some (empty_custom_fields
           \<lparr>linkedinUrnId := Some ''u1'', linkedinHeadline := Some ''Mathematician'',
            linkedinSkills := Some [''analysis'']\<rparr>)\<rparr>"

definition contact_B :: contact where
  "contact_B = blank_contact\<lparr>c_id := 2, firstName := ''Bob'', c_email := Some ''ada@x.com''\<rparr>"

definition empty_store :: store where
  "empty_store =
     \<lparr>contacts = [], activities = [], next_id = 1, read_faults = [], write_faults = [],
      activity_faults = [], calls = []\<rparr>"

definition store_AB :: store where
  "store_AB = empty_store\<lparr>contacts := [contact_A, contact_B], next_id := 3\<rparr>"

text \<open>Contact C has an e-mail address with capitals, as another module may have stored it.\<close>

definition contact_C :: contact where
  "contact_C = blank_contact\<lparr>c_id := 3, firstName := ''Bob'', c_email := Some ''Bob@X.com''\<rparr>"

text \<open>A payload that conforms to the schema, with the secret \<^verbatim>\<open>wrong\<close>.\<close>

definition ada_payload :: payload where
  "ada_payload =
     \<lparr>webhook_secret = ''wrong'', event_type = ''CONNECTION_ACCEPTED'',
      timestamp = ''2024-01-01T00:00:00.000Z'',
      p_source = \<lparr>organization_id = ''7d4e1f6a-2b3c-4d5e-8f90-1a2b3c4d5e6f'', workspace_id = ''0b1c2d3e-4f50-4a6b-9c7d-8e9f0a1b2c3d'', integration_id = ''5a6b7c8d-9e0f-4a1b-a2c3-d4e5f6a7b8c9'',
                  campaign_id = None\<rparr>,
      p_connection = ada\<rparr>"

text \<open>A batch of three elements, the second of which is \<^verbatim>\<open>null\<close>.\<close>

definition batch_example :: batch_body where
  "batch_example =
     \<lparr>b_webhook_secret = SecretOther, b_organization_id = ''7d4e1f6a-2b3c-4d5e-8f90-1a2b3c4d5e6f'',
      b_connections = Some [Some ada, None, Some ada]\<rparr>"

section \<open>The match cascade\<close>

lemma find_filter: "find P xs = Some c \<Longrightarrow> \<exists>ys. filter P xs = c # ys"
  by (induction xs) (auto split: if_splits)

lemma matchByUrnId_hit:
  assumes "\<not> fst (take_fault (read_faults s))"
    and "find (urn_row org u) (contacts s) = Some c"
  shows "matchByUrnId org u s =
      (Some (snapshot c), s\<lparr>read_faults := snd (take_fault (read_faults s)), calls := calls s @ [QueryByUrn org u]\<rparr>)"
proof -
  from find_filter [OF assms(2)] obtain ys where "filter (urn_row org u) (contacts s) = c # ys" ..
  with assms(1) show ?thesis
    by (simp add: matchByUrnId_def queryRaw_by_urn_def begin_read_def)
qed

lemma calls_matchByUrnId: "calls (snd (matchByUrnId org u s)) = calls s @ [QueryByUrn org u]"
  by (simp add: matchByUrnId_def queryRaw_by_urn_def begin_read_def split: list.splits)

lemma calls_matchByLinkedInUrl:
  "calls (snd (matchByLinkedInUrl org u s)) = calls s @ [FindFirstByUrl org (getLinkedInUrlVariations u)]"
  by (simp add: matchByLinkedInUrl_def findFirst_by_url_def begin_read_def)

lemma calls_matchByEmail:
  "calls (snd (matchByEmail js org e s)) = calls s @ [FindFirstByEmail org (toLowerCase js e)]"
  by (simp add: matchByEmail_def findFirst_by_email_def begin_read_def)

lemma findMatch_email_step:
  assumes "FindFirstByEmail org e \<in> set (new_calls s (snd (findMatch js org r s)))"
  shows "truthy (email r) \<and> mr_match_type (fst (findMatch js org r s)) \<noteq> Some URN_ID
      \<and> mr_match_type (fst (findMatch js org r s)) \<noteq> Some LINKEDIN_URL"
proof -
  obtain m1 s1 where m1: "matchByUrnId org (urn_id r) s = (m1, s1)" by force
  have c1: "calls s1 = calls s @ [QueryByUrn org (urn_id r)]"
    using calls_matchByUrnId [of org "urn_id r" s] by (simp add: m1)
  show ?thesis
  proof (cases m1)
    case (Some a)
    with assms m1 c1 show ?thesis
      by (simp add: findMatch_def new_calls_def)
  next
    case None
    let ?nu = "normalizeLinkedInUrl (Some (profile_url r)) (public_id r)"
    obtain m2 s2 where m2: "(if truthy ?nu then matchByLinkedInUrl org (the ?nu) s1 else (None, s1)) = (m2, s2)"
      by force
    have c2: "calls s2 = calls s1 \<or> calls s2 = calls s1 @ [FindFirstByUrl org (getLinkedInUrlVariations (the ?nu))]"
      using m2 calls_matchByLinkedInUrl [of org "the ?nu" s1] by (auto split: if_splits)
    show ?thesis
    proof (cases m2)
      case (Some b)
      with assms m1 None m2 c1 c2 show ?thesis
        by (auto simp: findMatch_def new_calls_def Let_def)
    next
      case N2: None
      show ?thesis
      proof (cases "truthy (email r)")
        case False
        with assms m1 None m2 N2 c1 c2 show ?thesis
          by (auto simp: findMatch_def new_calls_def Let_def)
      next
        case True
        with m1 None m2 N2 show ?thesis
          by (auto simp: findMatch_def Let_def match_found_def no_match_def split: prod.splits option.splits)
      qed
    qed
  qed
qed

lemma take_fault_drop: "snd (take_fault fs) = drop 1 fs"
  by (cases fs) (simp_all add: take_fault_def)

lemma read_fails_0: "read_fails s 0 = fst (take_fault (read_faults s))"
  by (simp add: read_fails_def)

lemma matchByUrnId_answer:
  "matchByUrnId org u s =
     (if read_fails s 0 then None else map_option snapshot (find (urn_row org u) (contacts s)),
      s\<lparr>read_faults := drop 1 (read_faults s), calls := calls s @ [QueryByUrn org u]\<rparr>)"
proof (cases "find (urn_row org u) (contacts s)")
  case None
  then have "filter (urn_row org u) (contacts s) = []"
    by (simp add: find_None_iff filter_empty_conv)
  with None show ?thesis
    by (simp add: matchByUrnId_def queryRaw_by_urn_def begin_read_def read_fails_0 take_fault_drop)
next
  case (Some c)
  from find_filter [OF Some] obtain ys where "filter (urn_row org u) (contacts s) = c # ys" ..
  with Some show ?thesis
    by (simp add: matchByUrnId_def queryRaw_by_urn_def begin_read_def read_fails_0 take_fault_drop)
qed

lemma matchByLinkedInUrl_answer:
  "matchByLinkedInUrl org u s =
     (if read_fails s 0 then None
      else map_option snapshot (find (url_row org (getLinkedInUrlVariations u)) (contacts s)),
      s\<lparr>read_faults := drop 1 (read_faults s),
        calls := calls s @ [FindFirstByUrl org (getLinkedInUrlVariations u)]\<rparr>)"
  by (simp add: matchByLinkedInUrl_def findFirst_by_url_def begin_read_def read_fails_0
      take_fault_drop)

lemma matchByEmail_answer:
  "matchByEmail js org e s =
     (if read_fails s 0 then None
      else map_option snapshot (find (email_row org (toLowerCase js e)) (contacts s)),
      s\<lparr>read_faults := drop 1 (read_faults s),
        calls := calls s @ [FindFirstByEmail org (toLowerCase js e)]\<rparr>)"
  by (simp add: matchByEmail_def findFirst_by_email_def begin_read_def read_fails_0
      take_fault_drop)

lemma findMatch_cascade:
  "fst (findMatch js org r s) =
     (case (if read_fails s 0 then None else find (urn_row org (urn_id r)) (contacts s)) of
        Some c \<Rightarrow> match_found URN_ID (snapshot c)
      | None \<Rightarrow>
          (case (if truthy (normalizeLinkedInUrl (Some (profile_url r)) (public_id r))
                 then (if read_fails s 1 then None
                       else find (url_row org (getLinkedInUrlVariations
                                    (the (normalizeLinkedInUrl (Some (profile_url r)) (public_id r)))))
                              (contacts s))
                 else None) of
             Some c \<Rightarrow> match_found LINKEDIN_URL (snapshot c)
           | None \<Rightarrow>
               (case (if truthy (email r)
                      then (if read_fails s
                                 (if truthy (normalizeLinkedInUrl (Some (profile_url r)) (public_id r))
                                  then 2 else 1)
                            then None
                            else find (email_row org (toLowerCase js (the (email r)))) (contacts s))
                      else None) of
                  Some c \<Rightarrow> match_found EMAIL (snapshot c)
                | None \<Rightarrow> no_match)))"
  by (auto simp: findMatch_def matchByUrnId_answer matchByLinkedInUrl_answer matchByEmail_answer
      read_fails_def Let_def numeral_2_eq_2
      split: option.splits)

text \<open>
  Claim C1, as the code has it. When the lookup by URN does not fail in the storage and
  \<open>c\<close> is the first contact of the organisation whose stored \<^verbatim>\<open>linkedinUrnId\<close> is the
  record's URN, \<open>findMatch\<close> answers \<open>c\<close> with kind \<open>URN_ID\<close> and makes no other
  storage call, whatever the record's e-mail and profile URL are. The lookup by e-mail is
  only made for a record that carries an e-mail, and then the answer is neither a URN match
  nor a URL match. In general the answer is that of the first step, in the order URN, URL,
  e-mail, whose lookup neither throws nor comes back empty: a lookup that the storage fails
  is caught and counts as a miss, and the cascade goes on to the next step. The URL step is
  made when the normalised URL is not empty, the e-mail step when the record carries an
  e-mail; when no step answers, the result is "not found".
\<close>

theorem findMatch_urn_first:
  "(\<not> fst (take_fault (read_faults s)) \<and> find (urn_row org (urn_id r)) (contacts s) = Some c
      \<longrightarrow> fst (findMatch js org r s) = match_found URN_ID (snapshot c)
          \<and> new_calls s (snd (findMatch js org r s)) = [QueryByUrn org (urn_id r)])
   \<and> (FindFirstByEmail org e \<in> set (new_calls s (snd (findMatch js org r s)))
      \<longrightarrow> truthy (email r)
          \<and> mr_match_type (fst (findMatch js org r s)) \<noteq> Some URN_ID
          \<and> mr_match_type (fst (findMatch js org r s)) \<noteq> Some LINKEDIN_URL)
   \<and> fst (findMatch js org r s) =
       (case (if read_fails s 0 then None else find (urn_row org (urn_id r)) (contacts s)) of
          Some c \<Rightarrow> match_found URN_ID (snapshot c)
        | None \<Rightarrow>
            (case (if truthy (normalizeLinkedInUrl (Some (profile_url r)) (public_id r))
                   then (if read_fails s 1 then None
                         else find (url_row org (getLinkedInUrlVariations
                                      (the (normalizeLinkedInUrl (Some (profile_url r)) (public_id r)))))
                                (contacts s))
                   else None) of
               Some c \<Rightarrow> match_found LINKEDIN_URL (snapshot c)
             | None \<Rightarrow>
                 (case (if truthy (email r)
                        then (if read_fails s
                                   (if truthy (normalizeLinkedInUrl (Some (profile_url r)) (public_id r))
                                    then 2 else 1)
                              then None
                              else find (email_row org (toLowerCase js (the (email r)))) (contacts s))
                        else None) of
                    Some c \<Rightarrow> match_found EMAIL (snapshot c)
                  | None \<Rightarrow> no_match)))"
proof -
  have a: "\<not> fst (take_fault (read_faults s)) \<and> find (urn_row org (urn_id r)) (contacts s) = Some c
      \<longrightarrow> fst (findMatch js org r s) = match_found URN_ID (snapshot c)
          \<and> new_calls s (snd (findMatch js org r s)) = [QueryByUrn org (urn_id r)]"
    by (auto simp: findMatch_def matchByUrnId_hit new_calls_def)
  from a findMatch_email_step [of org e s js r] findMatch_cascade [of js org r s]
  show ?thesis by blast
qed

theorem findMatch_urn_first_witness:
  "\<not> fst (take_fault (read_faults store_AB))
   \<and> find (urn_row ''7d4e1f6a-2b3c-4d5e-8f90-1a2b3c4d5e6f'' (urn_id ada)) (contacts store_AB) = Some contact_A
   \<and> email_row ''7d4e1f6a-2b3c-4d5e-8f90-1a2b3c4d5e6f'' (toLowerCase ascii_js (the (email ada))) contact_B
   \<and> fst (findMatch ascii_js ''7d4e1f6a-2b3c-4d5e-8f90-1a2b3c4d5e6f'' ada store_AB) = match_found URN_ID (snapshot contact_A)
   \<and> FindFirstByEmail ''7d4e1f6a-2b3c-4d5e-8f90-1a2b3c4d5e6f'' ''ada@x.com''
        \<in> set (new_calls (store_AB\<lparr>contacts := [contact_B]\<rparr>)
                 (snd (findMatch ascii_js ''7d4e1f6a-2b3c-4d5e-8f90-1a2b3c4d5e6f'' ada (store_AB\<lparr>contacts := [contact_B]\<rparr>))))
   \<and> truthy (email ada)
   \<and> mr_match_type (fst (findMatch ascii_js ''7d4e1f6a-2b3c-4d5e-8f90-1a2b3c4d5e6f'' ada (store_AB\<lparr>contacts := [contact_B]\<rparr>)))
        = Some EMAIL
   \<and> read_fails (store_AB\<lparr>contacts := [contact_B], read_faults := [False, True]\<rparr>) 1
   \<and> fst (findMatch ascii_js ''7d4e1f6a-2b3c-4d5e-8f90-1a2b3c4d5e6f'' ada
             (store_AB\<lparr>contacts := [contact_B], read_faults := [False, True]\<rparr>))
        = match_found EMAIL (snapshot contact_B)"
proof -
  have h1: "\<not> fst (take_fault (read_faults store_AB))"
    by (simp add: store_AB_def empty_store_def take_fault_def)
  have h2: "find (urn_row ''7d4e1f6a-2b3c-4d5e-8f90-1a2b3c4d5e6f'' (urn_id ada)) (contacts store_AB) = Some contact_A"
    by code_simp
  have h3: "email_row ''7d4e1f6a-2b3c-4d5e-8f90-1a2b3c4d5e6f'' (toLowerCase ascii_js (the (email ada))) contact_B"
    by code_simp
  have h4: "findMatch ascii_js ''7d4e1f6a-2b3c-4d5e-8f90-1a2b3c4d5e6f'' ada (store_AB\<lparr>contacts := [contact_B]\<rparr>) =
     (match_found EMAIL (snapshot contact_B),
      store_AB\<lparr>contacts := [contact_B],
        calls := [QueryByUrn ''7d4e1f6a-2b3c-4d5e-8f90-1a2b3c4d5e6f'' ''u1'',
                  FindFirstByUrl ''7d4e1f6a-2b3c-4d5e-8f90-1a2b3c4d5e6f'' (getLinkedInUrlVariations ''https://www.linkedin.com/in/ada''),
                  FindFirstByEmail ''7d4e1f6a-2b3c-4d5e-8f90-1a2b3c4d5e6f'' ''ada@x.com'']\<rparr>)"
    by code_simp
  have h5: "FindFirstByEmail ''7d4e1f6a-2b3c-4d5e-8f90-1a2b3c4d5e6f'' ''ada@x.com''
        \<in> set (new_calls (store_AB\<lparr>contacts := [contact_B]\<rparr>)
                 (snd (findMatch ascii_js ''7d4e1f6a-2b3c-4d5e-8f90-1a2b3c4d5e6f'' ada (store_AB\<lparr>contacts := [contact_B]\<rparr>))))"
    unfolding h4 by (simp add: new_calls_def store_AB_def empty_store_def)
  have h6: "mr_match_type (fst (findMatch ascii_js ''7d4e1f6a-2b3c-4d5e-8f90-1a2b3c4d5e6f'' ada (store_AB\<lparr>contacts := [contact_B]\<rparr>)))
        = Some EMAIL"
    unfolding h4 by (simp add: match_found_def)
  have h7: "read_fails (store_AB\<lparr>contacts := [contact_B], read_faults := [False, True]\<rparr>) 1"
    by code_simp
  have h8: "(case (if read_fails (store_AB\<lparr>contacts := [contact_B], read_faults := [False, True]\<rparr>) 0
                   then None
                   else find (urn_row ''7d4e1f6a-2b3c-4d5e-8f90-1a2b3c4d5e6f'' (urn_id ada))
                          (contacts (store_AB\<lparr>contacts := [contact_B], read_faults := [False, True]\<rparr>))) of
          Some c \<Rightarrow> match_found URN_ID (snapshot c)
        | None \<Rightarrow>
            (case (if truthy (normalizeLinkedInUrl (Some (profile_url ada)) (public_id ada))
                   then (if read_fails (store_AB\<lparr>contacts := [contact_B], read_faults := [False, True]\<rparr>) 1
                         then None
                         else find (url_row ''7d4e1f6a-2b3c-4d5e-8f90-1a2b3c4d5e6f'' (getLinkedInUrlVariations
                                      (the (normalizeLinkedInUrl (Some (profile_url ada)) (public_id ada)))))
                                (contacts (store_AB\<lparr>contacts := [contact_B], read_faults := [False, True]\<rparr>)))
                   else None) of
               Some c \<Rightarrow> match_found LINKEDIN_URL (snapshot c)
             | None \<Rightarrow>
                 (case (if truthy (email ada)
                        then (if read_fails (store_AB\<lparr>contacts := [contact_B], read_faults := [False, True]\<rparr>)
                                   (if truthy (normalizeLinkedInUrl (Some (profile_url ada)) (public_id ada))
                                    then 2 else 1)
                              then None
                              else find (email_row ''7d4e1f6a-2b3c-4d5e-8f90-1a2b3c4d5e6f'' (toLowerCase ascii_js (the (email ada))))
                                     (contacts (store_AB\<lparr>contacts := [contact_B], read_faults := [False, True]\<rparr>)))
                        else None) of
                    Some c \<Rightarrow> match_found EMAIL (snapshot c)
                  | None \<Rightarrow> no_match)))
        = match_found EMAIL (snapshot contact_B)"
    by code_simp
  have t: "truthy (email ada)" by code_simp
  from findMatch_urn_first [where s = store_AB and org = "''7d4e1f6a-2b3c-4d5e-8f90-1a2b3c4d5e6f''" and r = ada and c = contact_A
      and js = ascii_js and e = "''ada@x.com''"] h1 h2
  have a: "fst (findMatch ascii_js ''7d4e1f6a-2b3c-4d5e-8f90-1a2b3c4d5e6f'' ada store_AB) = match_found URN_ID (snapshot contact_A)"
    by blast
  from findMatch_urn_first [where s = "store_AB\<lparr>contacts := [contact_B], read_faults := [False, True]\<rparr>"
      and org = "''7d4e1f6a-2b3c-4d5e-8f90-1a2b3c4d5e6f''" and r = ada and c = contact_A and js = ascii_js and e = "''ada@x.com''"]
  have b: "fst (findMatch ascii_js ''7d4e1f6a-2b3c-4d5e-8f90-1a2b3c4d5e6f'' ada
             (store_AB\<lparr>contacts := [contact_B], read_faults := [False, True]\<rparr>))
        = match_found EMAIL (snapshot contact_B)"
    unfolding h8 by blast
  from a b h1 h2 h3 h5 h6 h7 t show ?thesis by blast
qed

theorem findMatch_urn_first_counterexample:
  "contact_A \<in> set (contacts (store_AB\<lparr>read_faults := [True]\<rparr>))
   \<and> urn_row ''7d4e1f6a-2b3c-4d5e-8f90-1a2b3c4d5e6f'' (urn_id ada) contact_A
   \<and> fst (findMatch ascii_js ''7d4e1f6a-2b3c-4d5e-8f90-1a2b3c4d5e6f'' ada (store_AB\<lparr>read_faults := [True]\<rparr>))
       = match_found EMAIL (snapshot contact_B)"
proof -
  have "fst (findMatch ascii_js ''7d4e1f6a-2b3c-4d5e-8f90-1a2b3c4d5e6f'' ada (store_AB\<lparr>read_faults := [True]\<rparr>))
       = match_found EMAIL (snapshot contact_B)"
    by code_simp
  moreover have "urn_row ''7d4e1f6a-2b3c-4d5e-8f90-1a2b3c4d5e6f'' (urn_id ada) contact_A"
    by (simp add: urn_row_def contact_A_def blank_contact_def
        ada_def blank_connection_def empty_custom_fields_def)
  ultimately show ?thesis
    by (simp add: store_AB_def empty_store_def)
qed

section \<open>The effect of a merge on the store\<close>

lemma c_id_apply_update [simp]: "c_id (apply_update u c) = c_id c"
  by (simp add: apply_update_def)

lemma find_update:
  "find (\<lambda>c. c_id c = cid) (map (\<lambda>c. if c_id c = cid then apply_update u c else c) cs)
     = map_option (apply_update u) (find (\<lambda>c. c_id c = cid) cs)"
proof (induction cs)
  case Nil
  then show ?case by simp
next
  case (Cons a cs)
  then show ?case by simp
qed

lemma mergeContact_effect:
  assumes "mr_contact_id mr = Some cid" "existing_data mr = Some existing"
  shows "(action (fst (mergeContact js mr r force now s)) = Skipped
          \<and> error (fst (mergeContact js mr r force now s)) \<noteq> None
          \<and> contacts (snd (mergeContact js mr r force now s)) = contacts s)
       \<or> (fst (mergeContact js mr r force now s) =
             \<lparr>success = True, action = Updated, contact_id = Some cid,
              match_type = mr_match_type mr,
              message = Some (''Updated existing contact: ''
                 @ fst (parseName js (name r) (first_name r) (last_name r)) @ '' ''
                 @ snd (parseName js (name r) (first_name r) (last_name r))),
              error = None\<rparr>
          \<and> contact_by_id cid s \<noteq> None
          \<and> contacts (snd (mergeContact js mr r force now s)) =
              map (\<lambda>c. if c_id c = cid then apply_update (merge_update_of js existing r force now cid s) c else c)
                (contacts s))"
  using assms
  by (auto simp: mergeContact_def findUnique_jobTitle_def contact_update_def begin_read_def
      begin_write_def skipped_result_def merge_update_of_def contact_by_id_def)

lemma mergeContact_no_target:
  assumes "mr_contact_id mr = None \<or> existing_data mr = None"
  shows "mergeContact js mr r force now s = (skipped_result ''No existing contact to merge with'', s)"
  using assms by (auto simp: mergeContact_def split: option.splits)

lemma mergeContact_contact:
  assumes "mr_contact_id mr = Some cid" "existing_data mr = Some existing"
    and "contact_by_id cid s = Some c"
  shows "contact_by_id cid (snd (mergeContact js mr r force now s)) =
     (if action (fst (mergeContact js mr r force now s)) = Updated
      then Some (apply_update (merge_update_of js existing r force now cid s) c)
      else Some c)"
  using mergeContact_effect [OF assms(1,2), of js r force now s] assms(3)
  by (auto simp: contact_by_id_def find_update)

lemma createContact_effect:
  "(action (fst (createContact js org r now s)) = Skipped
      \<and> error (fst (createContact js org r now s)) \<noteq> None
      \<and> contacts (snd (createContact js org r now s)) = contacts s)
   \<or> (action (fst (createContact js org r now s)) = Created
      \<and> success (fst (createContact js org r now s))
      \<and> contact_id (fst (createContact js org r now s)) = Some (next_id s)
      \<and> match_type (fst (createContact js org r now s)) = Some NEW
      \<and> contacts (snd (createContact js org r now s)) =
           contacts s @ [(create_row js org r now)\<lparr>c_id := next_id s\<rparr>])"
  by (simp add: createContact_def contact_create_def begin_write_def skipped_result_def)

section \<open>Integration-sourced fields\<close>

lemma customFields_apply_merge:
  "customFields (apply_update (merge_updateData js existing r force now j) c) =
     Some (merge_linkedinData
             (case ex_customFields existing of Some cf \<Rightarrow> cf | None \<Rightarrow> empty_custom_fields) r now)"
  by (simp add: apply_update_def merge_updateData_def Let_def)

text \<open>
  The column \<open>profileImageUrl\<close> is always assigned: the inbound photo, or else the
  LinkedIn URL of the matched contact.
\<close>

lemma profileImageUrl_apply_merge:
  "profileImageUrl (apply_update (merge_updateData js existing r force now j) c) =
     js_or (profile_pic_url r) (ex_linkedinUrl existing)"
  by (simp add: apply_update_def merge_updateData_def Let_def empty_update_def)

text \<open>
  Claim C2, as the code has it. When a merge is carried out on a stored contact, with or
  without \<open>forceUpdate\<close>, every integration-sourced field for which the record carries a
  value takes that value: the profile photo (column and entry of \<open>customFields\<close>), the
  headline, the location, the connected date, the industry and the skills; the work
  history takes the inbound value when that is truthy. When the record carries no skills
  or no work history, the stored ones are kept.
\<close>

theorem merge_integration_fields:
  assumes "contact_by_id (c_id c) s = Some c"
    and "action (fst (mergeContact js (match_found kind (snapshot c)) r force now s)) = Updated"
  shows "\<exists>c' cf'. contact_by_id (c_id c)
                     (snd (mergeContact js (match_found kind (snapshot c)) r force now s)) = Some c'
     \<and> customFields c' = Some cf'
     \<and> (truthy (profile_pic_url r) \<longrightarrow> profileImageUrl c' = profile_pic_url r)
     \<and> (profile_pic_url r \<noteq> None \<longrightarrow> linkedinProfilePhoto cf' = profile_pic_url r)
     \<and> (headline r \<noteq> None \<longrightarrow> linkedinHeadline cf' = headline r)
     \<and> (location r \<noteq> None \<longrightarrow> linkedinLocation cf' = location r)
     \<and> linkedinConnected cf' = Some (connected_on r)
     \<and> (industry r \<noteq> None \<longrightarrow> linkedinIndustry cf' = industry r)
     \<and> (skills r \<noteq> None \<longrightarrow> linkedinSkills cf' = skills r)
     \<and> (\<forall>v. work_experience r = Some v \<and> json_truthy v
            \<longrightarrow> linkedinWorkExperience cf' = Some v)
     \<and> (\<forall>cf. customFields c = Some cf \<and> skills r = None \<and> linkedinSkills cf \<noteq> None
            \<longrightarrow> linkedinSkills cf' = linkedinSkills cf)
     \<and> (\<forall>cf. customFields c = Some cf \<and> work_experience r = None
            \<longrightarrow> linkedinWorkExperience cf' = linkedinWorkExperience cf)"
proof -
  let ?mr = "match_found kind (snapshot c)"
  have m: "mr_contact_id ?mr = Some (c_id c)" "existing_data ?mr = Some (snapshot c)"
    by (simp_all add: match_found_def snapshot_def)
  from mergeContact_contact [OF m assms(1), of js r force now] assms(2)
  have k: "contact_by_id (c_id c) (snd (mergeContact js ?mr r force now s))
      = Some (apply_update (merge_update_of js (snapshot c) r force now (c_id c) s) c)"
    by simp
  have cf: "customFields (apply_update (merge_update_of js (snapshot c) r force now (c_id c) s) c)
      = Some (merge_linkedinData
                (case customFields c of Some cf \<Rightarrow> cf | None \<Rightarrow> empty_custom_fields) r now)"
    by (simp add: merge_update_of_def customFields_apply_merge snapshot_def)
  have ph: "truthy (profile_pic_url r) \<longrightarrow>
      profileImageUrl (apply_update (merge_update_of js (snapshot c) r force now (c_id c) s) c)
        = profile_pic_url r"
    by (simp add: merge_update_of_def profileImageUrl_apply_merge js_or_def)
  show ?thesis
    unfolding k using cf ph by (auto simp: merge_linkedinData_def)
qed

theorem merge_integration_fields_witness:
  "contact_by_id (c_id contact_A) store_AB = Some contact_A
   \<and> action (fst (mergeContact ascii_js (match_found URN_ID (snapshot contact_A))
                    (ada\<lparr>headline := Some ''Analyst''\<rparr>) False ''t1'' store_AB)) = Updated
   \<and> map_option (map_option linkedinHeadline \<circ> customFields) (contact_by_id 1 store_AB)
       = Some (Some (Some ''Mathematician''))
   \<and> map_option (map_option linkedinSkills \<circ> customFields) (contact_by_id 1 store_AB)
       = Some (Some (Some [''analysis'']))
   \<and> headline (ada\<lparr>headline := Some ''Analyst''\<rparr>) = Some ''Analyst''
   \<and> skills (ada\<lparr>headline := Some ''Analyst''\<rparr>) = None
   \<and> map_option (map_option linkedinHeadline \<circ> customFields) (contact_by_id 1
        (snd (mergeContact ascii_js (match_found URN_ID (snapshot contact_A))
                (ada\<lparr>headline := Some ''Analyst''\<rparr>) False ''t1'' store_AB)))
       = Some (Some (Some ''Analyst''))
   \<and> map_option (map_option linkedinSkills \<circ> customFields) (contact_by_id 1
        (snd (mergeContact ascii_js (match_found URN_ID (snapshot contact_A))
                (ada\<lparr>headline := Some ''Analyst''\<rparr>) False ''t1'' store_AB)))
       = Some (Some (Some [''analysis'']))"
proof -
  have h: "contact_by_id (c_id contact_A) store_AB = Some contact_A"
    by (simp add: contact_by_id_def store_AB_def empty_store_def contact_A_def blank_contact_def)
  have i: "c_id contact_A = 1"
    by (simp add: contact_A_def blank_contact_def)
  have a: "action (fst (mergeContact ascii_js (match_found URN_ID (snapshot contact_A))
                    (ada\<lparr>headline := Some ''Analyst''\<rparr>) False ''t1'' store_AB)) = Updated"
    by code_simp
  have b: "map_option (map_option linkedinHeadline \<circ> customFields) (contact_by_id 1 store_AB)
       = Some (Some (Some ''Mathematician''))"
    "map_option (map_option linkedinSkills \<circ> customFields) (contact_by_id 1 store_AB)
       = Some (Some (Some [''analysis'']))"
    by code_simp+
  have r: "headline (ada\<lparr>headline := Some ''Analyst''\<rparr>) = Some ''Analyst''"
    "skills (ada\<lparr>headline := Some ''Analyst''\<rparr>) = None"
    by (simp_all add: ada_def blank_connection_def)
  have s: "customFields contact_A = Some (empty_custom_fields
           \<lparr>linkedinUrnId := Some ''u1'', linkedinHeadline := Some ''Mathematician'',
            linkedinSkills := Some [''analysis'']\<rparr>)"
    by (simp add: contact_A_def blank_contact_def)
  from merge_integration_fields [OF h a] obtain c' cf' where
    "contact_by_id (c_id contact_A)
        (snd (mergeContact ascii_js (match_found URN_ID (snapshot contact_A))
                (ada\<lparr>headline := Some ''Analyst''\<rparr>) False ''t1'' store_AB)) = Some c'"
    "customFields c' = Some cf'"
    "headline (ada\<lparr>headline := Some ''Analyst''\<rparr>) \<noteq> None
       \<longrightarrow> linkedinHeadline cf' = headline (ada\<lparr>headline := Some ''Analyst''\<rparr>)"
    "\<forall>cf. customFields contact_A = Some cf \<and> skills (ada\<lparr>headline := Some ''Analyst''\<rparr>) = None
            \<and> linkedinSkills cf \<noteq> None
            \<longrightarrow> linkedinSkills cf' = linkedinSkills cf"
    by blast
  with h a b i r show ?thesis
    by (simp add: s)
qed

theorem merge_integration_fields_counterexample:
  "headline blank_connection = None
   \<and> map_option (map_option linkedinHeadline \<circ> customFields) (contact_by_id 1 store_AB)
       = Some (Some (Some ''Mathematician''))
   \<and> action (fst (mergeContact ascii_js (match_found URN_ID (snapshot contact_A)) blank_connection False
                    ''t1'' store_AB)) = Updated
   \<and> map_option (map_option linkedinHeadline \<circ> customFields) (contact_by_id 1
        (snd (mergeContact ascii_js (match_found URN_ID (snapshot contact_A)) blank_connection False ''t1''
                store_AB)))
       = Some (Some None)"
  by code_simp

section \<open>Basic identity fields\<close>

lemma basic_fields_apply_merge:
  "firstName (apply_update (merge_updateData js existing r force now j) c) =
     (if force \<or> ex_firstName existing = [] then fst (parseName js (name r) (first_name r) (last_name r))
      else firstName c)"
  "lastName (apply_update (merge_updateData js existing r force now j) c) =
     (if force \<or> ex_lastName existing = [] then snd (parseName js (name r) (first_name r) (last_name r))
      else lastName c)"
  "c_email (apply_update (merge_updateData js existing r force now j) c) =
     (if force \<or> \<not> truthy (ex_email existing)
      then js_or (map_option (toLowerCase js) (email r)) (ex_email existing)
      else c_email c)"
  "jobTitle (apply_update (merge_updateData js existing r force now j) c) =
     (if force \<or> \<not> truthy (case j of None \<Rightarrow> None | Some t \<Rightarrow> t)
      then (case job_title r of None \<Rightarrow> jobTitle c | Some t \<Rightarrow> Some t)
      else jobTitle c)"
  by (simp_all add: apply_update_def merge_updateData_def empty_update_def Let_def split: option.splits)

text \<open>
  Claim C4. Let \<open>c\<close> be the stored contact a match refers to. Without \<open>forceUpdate\<close>, a
  non-empty first name, last name, e-mail or job title of \<open>c\<close> is still there after the
  merge. When the merge is carried out (outcome \<open>updated\<close>) and \<open>forceUpdate\<close> is set or
  the stored value is empty, the first and last name become the parsed names of the record,
  the e-mail the lowercased inbound e-mail (the stored one if the record has none), and
  the job title the inbound job title (unchanged if the record has none).
\<close>

theorem merge_basic_fields:
  assumes "contact_by_id (c_id c) s = Some c"
  shows "\<exists>c'. contact_by_id (c_id c)
                 (snd (mergeContact js (match_found kind (snapshot c)) r force now s)) = Some c'
     \<and> (\<not> force \<and> firstName c \<noteq> [] \<longrightarrow> firstName c' = firstName c)
     \<and> (\<not> force \<and> lastName c \<noteq> [] \<longrightarrow> lastName c' = lastName c)
     \<and> (\<not> force \<and> truthy (c_email c) \<longrightarrow> c_email c' = c_email c)
     \<and> (\<not> force \<and> truthy (jobTitle c) \<longrightarrow> jobTitle c' = jobTitle c)
     \<and> (action (fst (mergeContact js (match_found kind (snapshot c)) r force now s)) = Updated
          \<longrightarrow> (force \<or> firstName c = []
                 \<longrightarrow> firstName c' = fst (parseName js (name r) (first_name r) (last_name r)))
            \<and> (force \<or> lastName c = []
                 \<longrightarrow> lastName c' = snd (parseName js (name r) (first_name r) (last_name r)))
            \<and> (force \<or> \<not> truthy (c_email c)
                 \<longrightarrow> c_email c' = js_or (map_option (toLowerCase js) (email r)) (c_email c))
            \<and> (force \<or> \<not> truthy (jobTitle c)
                 \<longrightarrow> jobTitle c' = (case job_title r of None \<Rightarrow> jobTitle c | Some t \<Rightarrow> Some t)))"
proof -
  let ?mr = "match_found kind (snapshot c)"
  have m: "mr_contact_id ?mr = Some (c_id c)" "existing_data ?mr = Some (snapshot c)"
    by (simp_all add: match_found_def snapshot_def)
  note k = mergeContact_contact [OF m assms, of js r force now]
  show ?thesis
  proof (cases "action (fst (mergeContact js ?mr r force now s)) = Updated")
    case True
    with k show ?thesis
      by (simp add: basic_fields_apply_merge merge_update_of_def assms snapshot_def)
  next
    case False
    with k show ?thesis by simp
  qed
qed

theorem merge_basic_fields_witness:
  "contact_by_id (c_id contact_A) store_AB = Some contact_A
   \<and> firstName contact_A = ''Augusta''
   \<and> map_option firstName (contact_by_id 1
        (snd (mergeContact ascii_js (match_found URN_ID (snapshot contact_A)) ada False ''t1'' store_AB)))
       = Some ''Augusta''
   \<and> action (fst (mergeContact ascii_js (match_found URN_ID (snapshot contact_A)) ada True ''t1'' store_AB)) = Updated
   \<and> map_option firstName (contact_by_id 1
        (snd (mergeContact ascii_js (match_found URN_ID (snapshot contact_A)) ada True ''t1'' store_AB)))
       = Some ''Ada''"
proof -
  have h: "contact_by_id (c_id contact_A) store_AB = Some contact_A"
    by (simp add: contact_by_id_def store_AB_def empty_store_def contact_A_def blank_contact_def)
  have i: "c_id contact_A = 1" "firstName contact_A = ''Augusta''"
    by (simp_all add: contact_A_def blank_contact_def)
  have a: "action (fst (mergeContact ascii_js (match_found URN_ID (snapshot contact_A)) ada True ''t1'' store_AB)) = Updated"
    by code_simp
  have p: "fst (parseName ascii_js (name ada) (first_name ada) (last_name ada)) = ''Ada''"
    by code_simp
  from merge_basic_fields [OF h, of ascii_js URN_ID ada False "''t1''"]
    merge_basic_fields [OF h, of ascii_js URN_ID ada True "''t1''"] h i a p
  show ?thesis by auto
qed

section \<open>User-managed fields\<close>

lemma user_fields_apply_merge:
  "leadStatus (apply_update (merge_updateData js existing r force now j) c) = leadStatus c"
  "ownerId (apply_update (merge_updateData js existing r force now j) c) = ownerId c"
  "priority (apply_update (merge_updateData js existing r force now j) c) = priority c"
  by (simp_all add: apply_update_def merge_updateData_def empty_update_def Let_def)

lemma user_fields_unassigned:
  "u_leadStatus (merge_updateData js existing r force now j) = None"
  "u_ownerId (merge_updateData js existing r force now j) = None"
  "u_priority (merge_updateData js existing r force now j) = None"
  by (simp_all add: merge_updateData_def empty_update_def Let_def)

lemma map_update_frame:
  assumes "\<And>c. g (f c) = g c"
  shows "map g (map (\<lambda>c. if P c then f c else c) cs) = map g cs"
  using assms by (induction cs) auto

text \<open>
  Claim C5. No call of \<open>mergeContact\<close>, whatever the match, the record and the flag,
  changes \<open>leadStatus\<close>, \<open>ownerId\<close> or \<open>priority\<close> of any row, and the update it
  hands to the storage assigns none of the three columns.
\<close>

theorem merge_never_writes_user_fields:
  "map leadStatus (contacts (snd (mergeContact js mr r force now s))) = map leadStatus (contacts s)
   \<and> map ownerId (contacts (snd (mergeContact js mr r force now s))) = map ownerId (contacts s)
   \<and> map priority (contacts (snd (mergeContact js mr r force now s))) = map priority (contacts s)
   \<and> map c_id (contacts (snd (mergeContact js mr r force now s))) = map c_id (contacts s)
   \<and> u_leadStatus (merge_updateData js existing r force now j) = None
   \<and> u_ownerId (merge_updateData js existing r force now j) = None
   \<and> u_priority (merge_updateData js existing r force now j) = None"
proof (cases "mr_contact_id mr = None \<or> existing_data mr = None")
  case True
  then show ?thesis
    by (simp add: mergeContact_no_target user_fields_unassigned)
next
  case False
  then obtain cid ex where m: "mr_contact_id mr = Some cid" "existing_data mr = Some ex"
    by auto
  from mergeContact_effect [OF m, of js r force now s]
  show ?thesis
    by (auto simp: user_fields_unassigned merge_update_of_def user_fields_apply_merge
        map_update_frame)
qed

theorem merge_never_writes_user_fields_witness:
  "map leadStatus (contacts (snd (mergeContact ascii_js (match_found URN_ID (snapshot contact_A)) ada True ''t1'' store_AB)))
     = [Some ''QUALIFIED'', None]
   \<and> map ownerId (contacts (snd (mergeContact ascii_js (match_found URN_ID (snapshot contact_A)) ada True ''t1'' store_AB)))
     = [Some ''user-7'', None]
   \<and> map priority (contacts (snd (mergeContact ascii_js (match_found URN_ID (snapshot contact_A)) ada True ''t1'' store_AB)))
     = [Some ''HIGH'', None]
   \<and> action (fst (mergeContact ascii_js (match_found URN_ID (snapshot contact_A)) ada True ''t1'' store_AB)) = Updated"
proof -
  have a: "action (fst (mergeContact ascii_js (match_found URN_ID (snapshot contact_A)) ada True ''t1'' store_AB)) = Updated"
    by code_simp
  have b: "map leadStatus (contacts store_AB) = [Some ''QUALIFIED'', None]"
    "map ownerId (contacts store_AB) = [Some ''user-7'', None]"
    "map priority (contacts store_AB) = [Some ''HIGH'', None]"
    by (simp_all add: store_AB_def empty_store_def contact_A_def contact_B_def blank_contact_def)
  from merge_never_writes_user_fields [of ascii_js "match_found URN_ID (snapshot contact_A)" ada True "''t1''" store_AB]
    a b show ?thesis by simp
qed

section \<open>The batch coordinator\<close>

lemma write_faults_findMatch: "write_faults (snd (findMatch js org r s)) = write_faults s"
  by (simp add: findMatch_def matchByUrnId_def matchByLinkedInUrl_def matchByEmail_def
      queryRaw_by_urn_def findFirst_by_url_def findFirst_by_email_def begin_read_def Let_def
      split: list.splits option.splits)

lemma mergeContact_write_fault:
  assumes "fst (take_fault (write_faults s))"
  shows "action (fst (mergeContact js mr r force now s)) = Skipped
     \<and> error (fst (mergeContact js mr r force now s)) \<noteq> None"
  using assms
  by (auto simp: mergeContact_def findUnique_jobTitle_def contact_update_def begin_read_def
      begin_write_def skipped_result_def split: option.splits)

lemma createContact_write_fault:
  assumes "fst (take_fault (write_faults s))"
  shows "action (fst (createContact js org r now s)) = Skipped
     \<and> error (fst (createContact js org r now s)) \<noteq> None"
  using assms
  by (simp add: createContact_def contact_create_def begin_write_def skipped_result_def)

lemma mergeContact_skipped_error:
  "action (fst (mergeContact js mr r force now s)) = Skipped
     \<Longrightarrow> error (fst (mergeContact js mr r force now s)) \<noteq> None"
  by (auto simp: mergeContact_def findUnique_jobTitle_def contact_update_def begin_read_def
      begin_write_def skipped_result_def split: option.splits if_splits)

lemma match_and_write_fault:
  assumes "fst (take_fault (write_faults s))"
  shows "action (fst (match_and_write js org r now s)) = Skipped
     \<and> error (fst (match_and_write js org r now s)) \<noteq> None"
proof -
  obtain mr s1 where f: "findMatch js org r s = (mr, s1)" by force
  have w: "fst (take_fault (write_faults s1))"
    using write_faults_findMatch [of js org r s] assms by (simp add: f)
  show ?thesis
    using mergeContact_write_fault [OF w] createContact_write_fault [OF w]
    by (simp add: match_and_write_def f)
qed

lemma match_and_write_skipped_error:
  assumes "action (fst (match_and_write js org r now s)) = Skipped"
  shows "error (fst (match_and_write js org r now s)) \<noteq> None"
proof -
  obtain mr s1 where f: "findMatch js org r s = (mr, s1)" by force
  show ?thesis
    using assms mergeContact_skipped_error [of js mr r False now s1] createContact_effect [of js org r now s1]
    by (auto simp: match_and_write_def f split: if_splits)
qed

lemma batch_item_results:
  "results (fst (batch_item js org now item (acc, s))) = results acc @ [item_result js org now item s]"
  by (auto simp: batch_item_def item_result_def split: option.splits prod.splits)

lemma sync_action_cases: "a = Created \<or> a = Updated \<or> a = Skipped" for a :: sync_action
  by (cases a) auto

lemma batch_item_inv:
  assumes "batch_inv acc"
  shows "batch_inv (fst (batch_item js org now item (acc, s)))"
proof (cases item)
  case None
  with assms show ?thesis
    by (simp add: batch_item_def batch_inv_def skipped_result_def)
next
  case (Some r)
  obtain res s1 where m: "match_and_write js org r now s = (res, s1)" by force
  have e: "action res = Skipped \<longrightarrow> error res \<noteq> None"
    using match_and_write_skipped_error [of js org r now s] by (simp add: m)
  from sync_action_cases [of "action res"] assms e show ?thesis
    by (auto simp: batch_item_def batch_inv_def Some m)
qed

lemma batch_loop_inv:
  assumes "batch_inv (fst st)"
  shows "batch_inv (fst (batch_loop js org now items st))"
  using assms
proof (induction items arbitrary: st)
  case Nil
  then show ?case by simp
next
  case (Cons item rest)
  obtain acc s where st: "st = (acc, s)" by force
  from Cons.prems have "batch_inv (fst (batch_item js org now item st))"
    by (simp add: st batch_item_inv)
  then show ?case by (simp add: Cons.IH)
qed

lemma batch_loop_append:
  "batch_loop js org now (xs @ ys) st = batch_loop js org now ys (batch_loop js org now xs st)"
  by (induction xs arbitrary: st) auto

lemma batch_loop_results:
  "\<exists>zs. results (fst (batch_loop js org now items st)) = results (fst st) @ zs
        \<and> length zs = length items"
proof (induction items arbitrary: st)
  case Nil
  then show ?case by simp
next
  case (Cons item rest)
  obtain acc s where st: "st = (acc, s)" by force
  from Cons.IH [of "batch_item js org now item st"]
  obtain zs where z: "results (fst (batch_loop js org now rest (batch_item js org now item st)))
       = results (fst (batch_item js org now item st)) @ zs" "length zs = length rest"
    by blast
  show ?case
    using z by (simp add: st batch_item_results)
qed

lemma batch_loop_nth:
  assumes "results (fst st) = []"
  shows "results (fst (batch_loop js org now (xs @ item # ys) st)) ! length xs
     = item_result js org now item (snd (batch_loop js org now xs st))"
proof -
  obtain acc1 s1 where s1: "batch_loop js org now xs st = (acc1, s1)" by force
  from batch_loop_results [of js org now xs st] assms s1
  have l1: "length (results acc1) = length xs" by auto
  from batch_loop_results [of js org now ys "batch_item js org now item (acc1, s1)"]
  obtain zs where "results (fst (batch_loop js org now ys (batch_item js org now item (acc1, s1))))
      = (results acc1 @ [item_result js org now item s1]) @ zs"
    by (auto simp: batch_item_results)
  then show ?thesis
    using l1 by (simp add: batch_loop_append s1 nth_append)
qed


lemma count_by_action:
  "length (filter (\<lambda>x. action x = Created) xs) + length (filter (\<lambda>x. action x = Updated) xs)
     + length (filter (\<lambda>x. action x = Skipped) xs) = length xs"
proof (induction xs)
  case Nil
  then show ?case by simp
next
  case (Cons x xs)
  with sync_action_cases [of "action x"] show ?case by auto
qed

text \<open>
  Claim C6. For a batch request that passes the secret check and whose \<open>connections\<close> is
  a list of \<open>N\<close> elements, \<open>handleBatchSync\<close> answers with \<open>total = N\<close>,
  \<open>created + updated + skipped = N\<close> and \<open>N\<close> outcomes; each counter is the number of
  outcomes with that action; every skipped outcome carries an error message. The outcome at
  each position is the outcome of that element, processed in the store the elements before
  it left behind: when the storage throws on the contact write of that element, the
  outcome is \<open>skipped\<close> with an error message, and the elements after it are processed all
  the same.
\<close>

theorem batch_sync_counts:
  assumes "secret_accepted webhookSecret (b_webhook_secret body)"
    and "b_connections body = Some conns"
  shows "\<exists>resp s'. handleBatchSync js webhookSecret body now s = (Inr resp, s')
      \<and> total resp = length conns
      \<and> created resp + updated resp + skipped resp = length conns
      \<and> length (results resp) = length conns
      \<and> created resp = length (filter (\<lambda>x. action x = Created) (results resp))
      \<and> updated resp = length (filter (\<lambda>x. action x = Updated) (results resp))
      \<and> skipped resp = length (filter (\<lambda>x. action x = Skipped) (results resp))
      \<and> (\<forall>x \<in> set (results resp). action x = Skipped \<longrightarrow> error x \<noteq> None)
      \<and> (\<forall>xs item ys. conns = xs @ item # ys \<longrightarrow>
            results resp ! length xs
              = item_result js (b_organization_id body) now item
                  (snd (batch_loop js (b_organization_id body) now xs (batch_start, s)))
            \<and> (fst (take_fault (write_faults
                  (snd (batch_loop js (b_organization_id body) now xs (batch_start, s)))))
                 \<longrightarrow> action (results resp ! length xs) = Skipped
                     \<and> error (results resp ! length xs) \<noteq> None))"
proof -
  let ?org = "b_organization_id body"
  obtain acc s' where l: "batch_loop js ?org now conns (batch_start, s) = (acc, s')" by force
  have h: "handleBatchSync js webhookSecret body now s = (Inr (acc\<lparr>total := length conns\<rparr>), s')"
    using assms by (simp add: handleBatchSync_def secret_accepted_def l)
  have "batch_inv batch_start"
    by (simp add: batch_inv_def batch_start_def)
  then have inv: "batch_inv acc"
    using batch_loop_inv [of "(batch_start, s)" js ?org now conns] by (simp add: l)
  have len: "length (results acc) = length conns"
    using batch_loop_results [of js ?org now conns "(batch_start, s)"] l
    by (auto simp: batch_start_def)
  have sum: "created acc + updated acc + skipped acc = length conns"
    using inv count_by_action [of "results acc"] len by (simp add: batch_inv_def)
  have nth: "results acc ! length xs
      = item_result js ?org now item (snd (batch_loop js ?org now xs (batch_start, s)))"
    if "conns = xs @ item # ys" for xs item ys
    using batch_loop_nth [of "(batch_start, s)" js ?org now xs item ys] that l
    by (simp add: batch_start_def)
  have flt: "action (item_result js ?org now item s1) = Skipped
      \<and> error (item_result js ?org now item s1) \<noteq> None"
    if "fst (take_fault (write_faults s1))" for item s1
    using that match_and_write_fault [of s1 js ?org _ now]
    by (cases item) (simp_all add: item_result_def skipped_result_def)
  have iso: "\<forall>xs item ys. conns = xs @ item # ys \<longrightarrow>
            results (acc\<lparr>total := length conns\<rparr>) ! length xs
              = item_result js ?org now item (snd (batch_loop js ?org now xs (batch_start, s)))
            \<and> (fst (take_fault (write_faults (snd (batch_loop js ?org now xs (batch_start, s)))))
                 \<longrightarrow> action (results (acc\<lparr>total := length conns\<rparr>) ! length xs) = Skipped
                     \<and> error (results (acc\<lparr>total := length conns\<rparr>) ! length xs) \<noteq> None)"
  proof (intro allI impI)
    fix xs item ys
    assume c: "conns = xs @ item # ys"
    show "results (acc\<lparr>total := length conns\<rparr>) ! length xs
              = item_result js ?org now item (snd (batch_loop js ?org now xs (batch_start, s)))
            \<and> (fst (take_fault (write_faults (snd (batch_loop js ?org now xs (batch_start, s)))))
                 \<longrightarrow> action (results (acc\<lparr>total := length conns\<rparr>) ! length xs) = Skipped
                     \<and> error (results (acc\<lparr>total := length conns\<rparr>) ! length xs) \<noteq> None)"
      using nth [OF c] flt [of "snd (batch_loop js ?org now xs (batch_start, s))" item] by simp
  qed
  have cnt: "total (acc\<lparr>total := length conns\<rparr>) = length conns
      \<and> created (acc\<lparr>total := length conns\<rparr>) + updated (acc\<lparr>total := length conns\<rparr>)
          + skipped (acc\<lparr>total := length conns\<rparr>) = length conns
      \<and> length (results (acc\<lparr>total := length conns\<rparr>)) = length conns
      \<and> created (acc\<lparr>total := length conns\<rparr>)
          = length (filter (\<lambda>x. action x = Created) (results (acc\<lparr>total := length conns\<rparr>)))
      \<and> updated (acc\<lparr>total := length conns\<rparr>)
          = length (filter (\<lambda>x. action x = Updated) (results (acc\<lparr>total := length conns\<rparr>)))
      \<and> skipped (acc\<lparr>total := length conns\<rparr>)
          = length (filter (\<lambda>x. action x = Skipped) (results (acc\<lparr>total := length conns\<rparr>)))
      \<and> (\<forall>x \<in> set (results (acc\<lparr>total := length conns\<rparr>)). action x = Skipped \<longrightarrow> error x \<noteq> None)"
    using inv len sum by (simp add: batch_inv_def list_all_iff)
  from h cnt iso show ?thesis by blast
qed

theorem batch_sync_counts_witness:
  "secret_accepted [] (b_webhook_secret batch_example)
   \<and> b_connections batch_example = Some [Some ada, None, Some ada]
   \<and> fst (take_fault (write_faults (empty_store\<lparr>write_faults := [True]\<rparr>)))
   \<and> (\<exists>resp. fst (handleBatchSync ascii_js [] batch_example ''t1'' (empty_store\<lparr>write_faults := [True]\<rparr>))
          = Inr resp
        \<and> total resp = 3 \<and> created resp = 1 \<and> updated resp = 0 \<and> skipped resp = 2
        \<and> map action (results resp) = [Skipped, Skipped, Created]
        \<and> map error (results resp) = [Some storage_failure, Some destructure_error, None])"
proof -
  have h1: "secret_accepted [] (b_webhook_secret batch_example)"
    by (simp add: secret_accepted_def)
  have h2: "b_connections batch_example = Some [Some ada, None, Some ada]"
    by (simp add: batch_example_def)
  have h3: "fst (take_fault (write_faults (empty_store\<lparr>write_faults := [True]\<rparr>)))"
    by (simp add: take_fault_def)
  have ev: "fst (handleBatchSync ascii_js [] batch_example ''t1'' (empty_store\<lparr>write_faults := [True]\<rparr>))
      = Inr \<lparr>total = 3, created = 1, updated = 0, skipped = 2,
             results = [skipped_result storage_failure, skipped_result destructure_error,
               \<lparr>success = True, action = Created, contact_id = Some 1, match_type = Some NEW,
                message = Some ''Created new contact: Ada Lovelace'', error = None\<rparr>]\<rparr>"
    by code_simp
  from batch_sync_counts [OF h1 h2, of ascii_js "''t1''" "empty_store\<lparr>write_faults := [True]\<rparr>"]
  obtain resp s' where
    r: "handleBatchSync ascii_js [] batch_example ''t1'' (empty_store\<lparr>write_faults := [True]\<rparr>) = (Inr resp, s')"
    and t: "total resp = length [Some ada, None, Some ada]"
    by blast
  from r ev have "resp = \<lparr>total = 3, created = 1, updated = 0, skipped = 2,
             results = [skipped_result storage_failure, skipped_result destructure_error,
               \<lparr>success = True, action = Created, contact_id = Some 1, match_type = Some NEW,
                message = Some ''Created new contact: Ada Lovelace'', error = None\<rparr>]\<rparr>"
    by simp
  with r t h1 h2 h3 show ?thesis
    by (simp add: skipped_result_def)
qed

section \<open>The authenticator\<close>

lemma foldl_zip_eq:
  "length a = length b \<Longrightarrow> foldl (\<lambda>acc (x, y). acc \<and> x = y) acc (zip a b) = (acc \<and> a = b)"
  by (induction a b arbitrary: acc rule: list_induct2) auto

lemma timingSafeEqual_eq:
  "timingSafeEqual a b = (if length a \<noteq> length b then Inl RangeError else Inr (a = b))"
  unfolding timingSafeEqual_def using foldl_zip_eq [of a b True] by simp

lemma verifyWebhookSecret_bytes:
  "verifyWebhookSecret e v = (case Buffer_from v of Inl err \<Rightarrow> False | Inr b \<Rightarrow> e = b)"
  by (auto simp: verifyWebhookSecret_def Buffer_from_def timingSafeEqual_eq
      split: secret_value.splits)

text \<open>
  Claim C7, as the code has it. \<open>verifyWebhookSecret\<close> always answers a boolean. For a
  provided secret that is a string it answers \<open>False\<close> when the byte lengths differ,
  \<open>True\<close> for the configured secret itself, and in general \<open>True\<close> exactly for the
  configured secret. For a provided value on which \<^verbatim>\<open>Buffer.from\<close> throws, the
  exception is caught and the answer is \<open>False\<close>. For a value that is no string but that
  \<^verbatim>\<open>Buffer.from\<close> converts to bytes, the answer is \<open>True\<close> exactly when these are the
  bytes of the configured secret. With an empty configured secret both handlers skip the
  check, and the constructor logs exactly one warning; with a configured secret it logs
  none.
\<close>

theorem authenticator_verify:
  "(length e \<noteq> length p \<longrightarrow> verifyWebhookSecret e (SecretString p) = False)
   \<and> verifyWebhookSecret e (SecretString e) = True
   \<and> verifyWebhookSecret e (SecretString p) = (e = p)
   \<and> verifyWebhookSecret e SecretOther = False
   \<and> verifyWebhookSecret e (SecretBytes b) = (e = b)
   \<and> secret_accepted [] q = True
   \<and> (\<not> truthy env \<longrightarrow> controller_constructor env = ([], [auth_disabled_warning]))
   \<and> (truthy env \<longrightarrow> controller_constructor env = (the env, []))"
  by (auto simp: verifyWebhookSecret_bytes Buffer_from_def secret_accepted_def
      controller_constructor_def truthy_def split: option.splits)

theorem authenticator_verify_witness:
  "length ''s3cret'' \<noteq> length ''s3cre'' \<and> verifyWebhookSecret ''s3cret'' (SecretString ''s3cre'') = False
   \<and> verifyWebhookSecret ''s3cret'' (SecretString ''s3cret'') = True
   \<and> verifyWebhookSecret ''s3cret'' SecretOther = False
   \<and> verifyWebhookSecret ''s3cret'' (SecretBytes ''s3cre'') = False
   \<and> secret_accepted [] (SecretString ''anything'') = True
   \<and> \<not> truthy None \<and> controller_constructor None = ([], [auth_disabled_warning])
   \<and> truthy (Some ''s3cret'') \<and> controller_constructor (Some ''s3cret'') = (''s3cret'', [])"
  using authenticator_verify [where e = "''s3cret''" and p = "''s3cre''" and b = "''s3cre''"
      and q = "SecretString ''anything''" and env = None]
    authenticator_verify [where e = "''s3cret''" and p = "''s3cre''" and b = "''s3cre''"
      and q = "SecretString ''anything''" and env = "Some ''s3cret''"]
  by (simp add: truthy_def)

theorem authenticator_malformed_counterexample:
  "byte_array [115, 51, 99, 114, 101, 116] = SecretBytes ''s3cret''
   \<and> Buffer_from (byte_array [115, 51, 99, 114, 101, 116]) = Inr ''s3cret''
   \<and> verifyWebhookSecret ''s3cret'' (byte_array [115, 51, 99, 114, 101, 116]) = True"
  by code_simp

section \<open>URL normalisation\<close>

lemma set_dedup_aux: "set (foldl (\<lambda>acc x. if x \<in> set acc then acc else acc @ [x]) acc xs) = set acc \<union> set xs"
  by (induction xs arbitrary: acc) auto

lemma set_dedup: "set (dedup xs) = set xs"
  by (simp add: dedup_def set_dedup_aux)

lemma takeWhile_id: "list_all id_char g \<Longrightarrow> takeWhile id_char g = g"
  by (simp add: list_all_iff)

lemma takeWhile_id_slash: "list_all id_char g \<Longrightarrow> takeWhile id_char (g @ ''/'') = g"
  by (simp add: list_all_iff takeWhile_append2 id_char_def)

lemma capture_variations:
  assumes "g \<noteq> []" "list_all id_char g"
  shows "regex_match in_pattern (''https://www.linkedin.com/in/'' @ g) = Some g"
    and "regex_match in_pattern (''https://linkedin.com/in/'' @ g) = Some g"
    and "regex_match in_pattern (''http://www.linkedin.com/in/'' @ g) = Some g"
    and "regex_match in_pattern (''http://linkedin.com/in/'' @ g) = Some g"
    and "regex_match in_pattern (''https://www.linkedin.com/in/'' @ g @ ''/'') = Some g"
    and "regex_match in_pattern (''linkedin.com/in/'' @ g) = Some g"
proof -
  show "regex_match in_pattern (''https://www.linkedin.com/in/'' @ g) = Some g"
    using assms by (simp add: in_pattern_def match_here_def to_lower_char_def takeWhile_id)
  show "regex_match in_pattern (''https://linkedin.com/in/'' @ g) = Some g"
    using assms by (simp add: in_pattern_def match_here_def to_lower_char_def takeWhile_id)
  show "regex_match in_pattern (''http://www.linkedin.com/in/'' @ g) = Some g"
    using assms by (simp add: in_pattern_def match_here_def to_lower_char_def takeWhile_id)
  show "regex_match in_pattern (''http://linkedin.com/in/'' @ g) = Some g"
    using assms by (simp add: in_pattern_def match_here_def to_lower_char_def takeWhile_id)
  show "regex_match in_pattern (''https://www.linkedin.com/in/'' @ g @ ''/'') = Some g"
    using assms by (simp add: in_pattern_def match_here_def to_lower_char_def takeWhile_id_slash)
  show "regex_match in_pattern (''linkedin.com/in/'' @ g) = Some g"
    using assms by (simp add: in_pattern_def match_here_def to_lower_char_def takeWhile_id)
qed

lemma canonicalE:
  assumes "is_canonical url"
  obtains g where "url = canonical_prefix @ g" "g \<noteq> []" "list_all id_char g"
proof -
  have "url = take (length canonical_prefix) url @ drop (length canonical_prefix) url" by simp
  with assms show thesis
    using that [of "drop (length canonical_prefix) url"] by (simp add: is_canonical_def)
qed

text \<open>
  Claim C8. Normalising a canonical URL returns it unchanged, and every variation that
  \<open>getLinkedInUrlVariations\<close> generates from a canonical URL normalises back to it.
\<close>

theorem normalize_canonical_idempotent:
  assumes "is_canonical url"
  shows "normalizeLinkedInUrl (Some url) None = Some url
     \<and> (\<forall>v \<in> set (getLinkedInUrlVariations url). normalizeLinkedInUrl (Some v) None = Some url)"
proof -
  from assms obtain g where u: "url = canonical_prefix @ g" and g: "g \<noteq> []" "list_all id_char g"
    by (rule canonicalE)
  note caps = capture_variations [OF g]
  have n: "regex_match in_pattern v = Some g \<Longrightarrow> v \<noteq> []
      \<Longrightarrow> normalizeLinkedInUrl (Some v) None = Some url" for v
    by (simp add: normalizeLinkedInUrl_def truthy_def u)
  have vars: "set (getLinkedInUrlVariations url) =
     {url, ''https://www.linkedin.com/in/'' @ g, ''https://linkedin.com/in/'' @ g,
      ''http://www.linkedin.com/in/'' @ g, ''http://linkedin.com/in/'' @ g,
      ''https://www.linkedin.com/in/'' @ g @ ''/'', ''linkedin.com/in/'' @ g}"
    using caps(1) by (simp add: getLinkedInUrlVariations_def set_dedup u canonical_prefix_def)
  have u': "url = ''https://www.linkedin.com/in/'' @ g"
    by (simp add: u canonical_prefix_def)
  have "normalizeLinkedInUrl (Some url) None = Some url"
    unfolding u' using n [OF caps(1)] by (simp add: u')
  moreover have "normalizeLinkedInUrl (Some (''https://www.linkedin.com/in/'' @ g)) None = Some url"
    using n [OF caps(1)] by simp
  moreover have "normalizeLinkedInUrl (Some (''https://linkedin.com/in/'' @ g)) None = Some url"
    using n [OF caps(2)] by simp
  moreover have "normalizeLinkedInUrl (Some (''http://www.linkedin.com/in/'' @ g)) None = Some url"
    using n [OF caps(3)] by simp
  moreover have "normalizeLinkedInUrl (Some (''http://linkedin.com/in/'' @ g)) None = Some url"
    using n [OF caps(4)] by simp
  moreover have "normalizeLinkedInUrl (Some (''https://www.linkedin.com/in/'' @ g @ ''/'')) None = Some url"
    using n [OF caps(5)] by simp
  moreover have "normalizeLinkedInUrl (Some (''linkedin.com/in/'' @ g)) None = Some url"
    using n [OF caps(6)] by simp
  ultimately show ?thesis
    unfolding vars by blast
qed

theorem normalize_canonical_idempotent_witness:
  "is_canonical ''https://www.linkedin.com/in/ada''
   \<and> normalizeLinkedInUrl (Some ''https://www.linkedin.com/in/ada'') None = Some ''https://www.linkedin.com/in/ada''
   \<and> ''http://linkedin.com/in/ada'' \<in> set (getLinkedInUrlVariations ''https://www.linkedin.com/in/ada'')
   \<and> normalizeLinkedInUrl (Some ''http://linkedin.com/in/ada'') None = Some ''https://www.linkedin.com/in/ada''"
proof -
  have c: "is_canonical ''https://www.linkedin.com/in/ada''"
    by (simp add: is_canonical_def canonical_prefix_def id_char_def)
  have v: "''http://linkedin.com/in/ada'' \<in> set (getLinkedInUrlVariations ''https://www.linkedin.com/in/ada'')"
    by (simp add: getLinkedInUrlVariations_def dedup_def in_pattern_def match_here_def to_lower_char_def id_char_def)
  from normalize_canonical_idempotent [OF c] c v show ?thesis by blast
qed

section \<open>Order of validation and authentication\<close>

text \<open>
  Claim C9, as the code has it. \<open>handleConnectionAccepted\<close> validates the body first: a
  body that does not conform to the schema is rejected as a bad request whatever secret it
  carries; a conforming body whose secret fails the check is rejected as unauthorized; in
  both cases the store is untouched, no lookup was made. Otherwise the handler answers
  with an outcome.
\<close>

theorem validation_before_authentication:
  "(safeParse body = None
      \<longrightarrow> handleConnectionAccepted js webhookSecret body now s
            = (Inl (BadRequestException ''Invalid webhook payload''), s))
   \<and> (safeParse body = Some p \<and> \<not> secret_accepted webhookSecret (SecretString (webhook_secret p))
      \<longrightarrow> handleConnectionAccepted js webhookSecret body now s
            = (Inl (UnauthorizedException ''Invalid webhook secret''), s))
   \<and> (safeParse body = Some p \<and> secret_accepted webhookSecret (SecretString (webhook_secret p))
      \<longrightarrow> (\<exists>res s'. handleConnectionAccepted js webhookSecret body now s = (Inr res, s')))"
  by (auto simp: handleConnectionAccepted_def secret_accepted_def split: prod.splits)

theorem validation_before_authentication_witness:
  "safeParse (Malformed JNull) = None
   \<and> handleConnectionAccepted ascii_js ''s3cret'' (Malformed JNull) ''t1'' empty_store
       = (Inl (BadRequestException ''Invalid webhook payload''), empty_store)
   \<and> safeParse (WellFormed ada_payload) = Some ada_payload
   \<and> \<not> secret_accepted ''s3cret'' (SecretString (webhook_secret ada_payload))
   \<and> handleConnectionAccepted ascii_js ''s3cret'' (WellFormed ada_payload) ''t1'' empty_store
       = (Inl (UnauthorizedException ''Invalid webhook secret''), empty_store)
   \<and> secret_accepted ''wrong'' (SecretString (webhook_secret ada_payload))
   \<and> (\<exists>res s'. handleConnectionAccepted ascii_js ''wrong'' (WellFormed ada_payload) ''t1'' empty_store
         = (Inr res, s'))"
proof -
  have a: "safeParse (Malformed JNull) = None" "safeParse (WellFormed ada_payload) = Some ada_payload"
    by (simp_all add: safeParse_def)
  have b: "\<not> secret_accepted ''s3cret'' (SecretString (webhook_secret ada_payload))"
    "secret_accepted ''wrong'' (SecretString (webhook_secret ada_payload))"
    by code_simp+
  from validation_before_authentication [where body = "Malformed JNull" and webhookSecret = "''s3cret''"
      and now = "''t1''" and s = empty_store and p = ada_payload and js = ascii_js]
    validation_before_authentication [where body = "WellFormed ada_payload"
      and webhookSecret = "''s3cret''" and now = "''t1''" and s = empty_store and p = ada_payload
      and js = ascii_js]
    validation_before_authentication [where body = "WellFormed ada_payload"
      and webhookSecret = "''wrong''" and now = "''t1''" and s = empty_store and p = ada_payload
      and js = ascii_js]
    a b
  show ?thesis by simp
qed

theorem authentication_first_counterexample:
  "\<not> secret_accepted ''s3cret'' (SecretString ''wrong'')
   \<and> safeParse (Malformed (JObj [(''webhook_secret'', JStr ''wrong'')])) = None
   \<and> fst (handleConnectionAccepted ascii_js ''s3cret''
            (Malformed (JObj [(''webhook_secret'', JStr ''wrong'')])) ''t1'' empty_store)
       = Inl (BadRequestException ''Invalid webhook payload'')
   \<and> fst (handleConnectionAccepted ascii_js ''s3cret''
            (Malformed (JObj [(''webhook_secret'', JStr ''wrong'')])) ''t1'' empty_store)
       \<noteq> Inl (UnauthorizedException ''Invalid webhook secret'')"
  by code_simp

section \<open>Stored e-mail addresses\<close>

lemma js_or_lower:
  "js_or (map_option (toLowerCase js) e) None = None
   \<or> (\<exists>x. e = Some x \<and> js_or (map_option (toLowerCase js) e) None = Some (toLowerCase js x))"
  by (cases e) (auto simp: js_or_def truthy_def)

lemma merge_email_assigned:
  "u_email (merge_updateData js existing r False now j) = None
   \<or> u_email (merge_updateData js existing r False now j) = Some None
   \<or> u_email (merge_updateData js existing r False now j) = Some (Some [])
   \<or> (\<exists>x. email r = Some x
          \<and> u_email (merge_updateData js existing r False now j) = Some (Some (toLowerCase js x)))"
  by (cases "email r"; cases "ex_email existing")
    (auto simp: merge_updateData_def empty_update_def Let_def js_or_def truthy_def)

lemma merge_email_stored:
  assumes h: "contact_by_id (c_id c) s = Some c"
  shows "\<exists>c'. contact_by_id (c_id c)
                 (snd (mergeContact js (match_found kind (snapshot c)) r force now s)) = Some c'
            \<and> (c_email c' = c_email c
                \<or> (\<exists>x. email r = Some x \<and> c_email c' = Some (toLowerCase js x)))"
proof -
  let ?mr = "match_found kind (snapshot c)"
  have m: "mr_contact_id ?mr = Some (c_id c)" "existing_data ?mr = Some (snapshot c)"
    by (simp_all add: match_found_def snapshot_def)
  note k = mergeContact_contact [OF m h, of js r force now]
  have e: "c_email (apply_update (merge_update_of js (snapshot c) r force now (c_id c) s) c) = c_email c
       \<or> (\<exists>x. email r = Some x
              \<and> c_email (apply_update (merge_update_of js (snapshot c) r force now (c_id c) s) c)
                  = Some (toLowerCase js x))"
    by (cases "email r")
      (auto simp: basic_fields_apply_merge merge_update_of_def snapshot_def js_or_def truthy_def)
  from k e show ?thesis
    by (cases "action (fst (mergeContact js ?mr r force now s)) = Updated") auto
qed

text \<open>
  Claim C10, as the code has it. The e-mail of the row \<open>createContact\<close> inserts is the
  inbound e-mail put through \<^verbatim>\<open>toLowerCase\<close>, or null. After \<open>mergeContact\<close> on a
  stored contact, the e-mail of that contact is the one it had, or the inbound e-mail put
  through \<^verbatim>\<open>toLowerCase\<close>; and with \<open>forceUpdate\<close> off, as both handlers call it, an
  e-mail the update assigns is null, empty or the inbound e-mail put through
  \<^verbatim>\<open>toLowerCase\<close>. This holds whatever \<^verbatim>\<open>toLowerCase\<close> does to characters
  outside ASCII. When lowering a lowered string changes nothing, such an e-mail has no
  uppercase character: \<^verbatim>\<open>toLowerCase\<close> leaves it as it is, which is what the exact
  comparison of \<open>matchByEmail\<close> against the lowered inbound e-mail needs. Under
  \<open>forceUpdate\<close>, for a record without e-mail, the existing e-mail is written back as it
  is (see the counterexample).
\<close>

theorem stored_email_lowercase:
  "(c_email (create_row js org r now) = None
      \<or> (\<exists>x. email r = Some x \<and> c_email (create_row js org r now) = Some (toLowerCase js x)))
   \<and> (action (fst (createContact js org r now s)) = Created
      \<longrightarrow> contacts (snd (createContact js org r now s)) =
            contacts s @ [(create_row js org r now)\<lparr>c_id := next_id s\<rparr>])
   \<and> (contact_by_id (c_id c) s = Some c
      \<longrightarrow> (\<exists>c'. contact_by_id (c_id c)
                   (snd (mergeContact js (match_found kind (snapshot c)) r force now s)) = Some c'
              \<and> (c_email c' = c_email c
                  \<or> (\<exists>x. email r = Some x \<and> c_email c' = Some (toLowerCase js x)))))
   \<and> (u_email (merge_updateData js existing r False now j) = None
      \<or> u_email (merge_updateData js existing r False now j) = Some None
      \<or> u_email (merge_updateData js existing r False now j) = Some (Some [])
      \<or> (\<exists>x. email r = Some x
             \<and> u_email (merge_updateData js existing r False now j)
                 = Some (Some (toLowerCase js x))))
   \<and> ((\<forall>x. toLowerCase js (toLowerCase js x) = toLowerCase js x)
      \<longrightarrow> (\<forall>x. c_email (create_row js org r now) = Some x \<longrightarrow> no_upper js x)
          \<and> (contact_by_id (c_id c) s = Some c
             \<longrightarrow> (\<exists>c'. contact_by_id (c_id c)
                          (snd (mergeContact js (match_found kind (snapshot c)) r force now s))
                        = Some c'
                     \<and> (c_email c' = c_email c \<or> (\<exists>x. c_email c' = Some x \<and> no_upper js x))))
          \<and> (\<forall>x. u_email (merge_updateData js existing r False now j) = Some (Some x)
                 \<longrightarrow> x = [] \<or> no_upper js x))"
proof -
  have a: "c_email (create_row js org r now) = None
      \<or> (\<exists>x. email r = Some x \<and> c_email (create_row js org r now) = Some (toLowerCase js x))"
    using js_or_lower [of js "email r"] by (simp add: create_row_def)
  have b: "action (fst (createContact js org r now s)) = Created
      \<longrightarrow> contacts (snd (createContact js org r now s)) =
            contacts s @ [(create_row js org r now)\<lparr>c_id := next_id s\<rparr>]"
    using createContact_effect [of js org r now s] by auto
  note c = merge_email_stored [of c s js kind r force now]
  note d = merge_email_assigned [of js existing r now j]
  have f: "(\<forall>x. c_email (create_row js org r now) = Some x \<longrightarrow> no_upper js x)
          \<and> (contact_by_id (c_id c) s = Some c
             \<longrightarrow> (\<exists>c'. contact_by_id (c_id c)
                          (snd (mergeContact js (match_found kind (snapshot c)) r force now s))
                        = Some c'
                     \<and> (c_email c' = c_email c \<or> (\<exists>x. c_email c' = Some x \<and> no_upper js x))))
          \<and> (\<forall>x. u_email (merge_updateData js existing r False now j) = Some (Some x)
                 \<longrightarrow> x = [] \<or> no_upper js x)"
    if idem: "\<forall>x. toLowerCase js (toLowerCase js x) = toLowerCase js x"
  proof -
    have n: "no_upper js (toLowerCase js x)" for x
      using idem by (simp add: no_upper_def)
    from a n have f1: "\<forall>x. c_email (create_row js org r now) = Some x \<longrightarrow> no_upper js x"
      by auto
    have f2: "contact_by_id (c_id c) s = Some c
             \<longrightarrow> (\<exists>c'. contact_by_id (c_id c)
                          (snd (mergeContact js (match_found kind (snapshot c)) r force now s))
                        = Some c'
                     \<and> (c_email c' = c_email c \<or> (\<exists>x. c_email c' = Some x \<and> no_upper js x)))"
    proof
      assume h: "contact_by_id (c_id c) s = Some c"
      from c [OF h] obtain c' where
        "contact_by_id (c_id c)
           (snd (mergeContact js (match_found kind (snapshot c)) r force now s)) = Some c'"
        "c_email c' = c_email c \<or> (\<exists>x. email r = Some x \<and> c_email c' = Some (toLowerCase js x))"
        by blast
      with n show "\<exists>c'. contact_by_id (c_id c)
                          (snd (mergeContact js (match_found kind (snapshot c)) r force now s))
                        = Some c'
                     \<and> (c_email c' = c_email c \<or> (\<exists>x. c_email c' = Some x \<and> no_upper js x))"
        by blast
    qed
    from d n have f3: "\<forall>x. u_email (merge_updateData js existing r False now j) = Some (Some x)
                 \<longrightarrow> x = [] \<or> no_upper js x"
      by auto
    from f1 f2 f3 show ?thesis by blast
  qed
  from a b c d f show ?thesis by blast
qed

lemma ascii_lower_idem: "toLowerCase ascii_js (toLowerCase ascii_js x) = toLowerCase ascii_js x"
proof -
  have "to_lower_char (to_lower_char ch) = to_lower_char ch" for ch
    by (auto simp: to_lower_char_def Let_def)
  then show ?thesis by (simp add: ascii_js_def)
qed

theorem stored_email_lowercase_witness:
  "action (fst (createContact ascii_js ''7d4e1f6a-2b3c-4d5e-8f90-1a2b3c4d5e6f'' (ada\<lparr>email := Some ''Ada@X.com''\<rparr>) ''t1'' store_AB)) = Created
   \<and> map c_email (contacts (snd (createContact ascii_js ''7d4e1f6a-2b3c-4d5e-8f90-1a2b3c4d5e6f'' (ada\<lparr>email := Some ''Ada@X.com''\<rparr>) ''t1'' store_AB)))
       = [None, Some ''ada@x.com'', Some ''ada@x.com'']
   \<and> contact_by_id (c_id contact_A) store_AB = Some contact_A
   \<and> map_option c_email (contact_by_id (c_id contact_A)
        (snd (mergeContact ascii_js (match_found URN_ID (snapshot contact_A))
                (ada\<lparr>email := Some ''Ada@X.com''\<rparr>) False ''t1'' store_AB)))
       = Some (Some ''ada@x.com'')
   \<and> (\<forall>x. toLowerCase ascii_js (toLowerCase ascii_js x) = toLowerCase ascii_js x)
   \<and> c_email (create_row ascii_js ''7d4e1f6a-2b3c-4d5e-8f90-1a2b3c4d5e6f'' (ada\<lparr>email := Some ''Ada@X.com''\<rparr>) ''t1'')
       = Some ''ada@x.com''
   \<and> u_email (merge_updateData ascii_js (snapshot contact_A) (ada\<lparr>email := Some ''Ada@X.com''\<rparr>)
         False ''t1'' None) = Some (Some ''ada@x.com'')
   \<and> no_upper ascii_js ''ada@x.com''"
proof -
  have h: "contact_by_id (c_id contact_A) store_AB = Some contact_A"
    by (simp add: contact_by_id_def store_AB_def empty_store_def contact_A_def blank_contact_def)
  have a: "action (fst (createContact ascii_js ''7d4e1f6a-2b3c-4d5e-8f90-1a2b3c4d5e6f'' (ada\<lparr>email := Some ''Ada@X.com''\<rparr>) ''t1'' store_AB)) = Created"
    by code_simp
  have r: "map c_email (contacts store_AB @
       [(create_row ascii_js ''7d4e1f6a-2b3c-4d5e-8f90-1a2b3c4d5e6f'' (ada\<lparr>email := Some ''Ada@X.com''\<rparr>) ''t1'')\<lparr>c_id := next_id store_AB\<rparr>])
       = [None, Some ''ada@x.com'', Some ''ada@x.com'']"
    by code_simp
  have m: "map_option c_email (contact_by_id (c_id contact_A)
        (snd (mergeContact ascii_js (match_found URN_ID (snapshot contact_A))
                (ada\<lparr>email := Some ''Ada@X.com''\<rparr>) False ''t1'' store_AB)))
       = Some (Some ''ada@x.com'')"
    by code_simp
  have e: "c_email (create_row ascii_js ''7d4e1f6a-2b3c-4d5e-8f90-1a2b3c4d5e6f'' (ada\<lparr>email := Some ''Ada@X.com''\<rparr>) ''t1'')
       = Some ''ada@x.com''"
    by code_simp
  have i: "\<forall>x. toLowerCase ascii_js (toLowerCase ascii_js x) = toLowerCase ascii_js x"
    by (simp add: ascii_lower_idem)
  have u: "u_email (merge_updateData ascii_js (snapshot contact_A) (ada\<lparr>email := Some ''Ada@X.com''\<rparr>)
         False ''t1'' None) = Some (Some ''ada@x.com'')"
    by code_simp
  from stored_email_lowercase [where js = ascii_js and org = "''7d4e1f6a-2b3c-4d5e-8f90-1a2b3c4d5e6f''"
      and r = "ada\<lparr>email := Some ''Ada@X.com''\<rparr>" and now = "''t1''" and s = store_AB
      and c = contact_A and kind = URN_ID and force = False and existing = "snapshot contact_A"
      and j = None] i e
  have n: "no_upper ascii_js ''ada@x.com''"
    by blast
  from stored_email_lowercase [where js = ascii_js and org = "''7d4e1f6a-2b3c-4d5e-8f90-1a2b3c4d5e6f''"
      and r = "ada\<lparr>email := Some ''Ada@X.com''\<rparr>" and now = "''t1''" and s = store_AB
      and c = contact_A and kind = URN_ID and force = False and existing = "snapshot contact_A"
      and j = None] a r h m n i e u
  show ?thesis by simp
qed

theorem stored_email_lowercase_counterexample:
  "email blank_connection = None
   \<and> contact_by_id 3 (empty_store\<lparr>contacts := [contact_C]\<rparr>) = Some contact_C
   \<and> action (fst (mergeContact ascii_js (match_found EMAIL (snapshot contact_C)) blank_connection True ''t1''
                   (empty_store\<lparr>contacts := [contact_C]\<rparr>))) = Updated
   \<and> u_email (merge_update_of ascii_js (snapshot contact_C) blank_connection True ''t1'' 3
                (empty_store\<lparr>contacts := [contact_C]\<rparr>)) = Some (Some ''Bob@X.com'')
   \<and> map c_email (contacts (snd (mergeContact ascii_js (match_found EMAIL (snapshot contact_C))
                blank_connection True ''t1'' (empty_store\<lparr>contacts := [contact_C]\<rparr>))))
       = [Some ''Bob@X.com'']
   \<and> toLowerCase ascii_js ''Bob@X.com'' = ''bob@x.com''
   \<and> \<not> no_upper ascii_js ''Bob@X.com''"
  by code_simp

section \<open>Running the pipeline twice\<close>

lemma find_app:
  "find P (xs @ ys) = (case find P xs of None \<Rightarrow> find P ys | Some x \<Rightarrow> Some x)"
  by (induction xs) auto

lemma findMatch_frame:
  "contacts (snd (findMatch js org r s)) = contacts s
   \<and> next_id (snd (findMatch js org r s)) = next_id s
   \<and> write_faults (snd (findMatch js org r s)) = write_faults s
   \<and> (read_faults s = [] \<longrightarrow> read_faults (snd (findMatch js org r s)) = [])"
  by (simp add: findMatch_def matchByUrnId_def matchByLinkedInUrl_def matchByEmail_def
      queryRaw_by_urn_def findFirst_by_url_def findFirst_by_email_def begin_read_def Let_def
      take_fault_def
      split: list.splits option.splits)

lemma log_sync_activity_frame:
  "contacts (log_sync_activity org r res s) = contacts s
   \<and> next_id (log_sync_activity org r res s) = next_id s
   \<and> write_faults (log_sync_activity org r res s) = write_faults s
   \<and> read_faults (log_sync_activity org r res s) = read_faults s"
  by (simp add: log_sync_activity_def createSyncActivity_def activity_create_def
      begin_activity_write_def split: option.splits)

lemma mergeContact_not_created: "action (fst (mergeContact js mr r force now s)) \<noteq> Created"
proof (cases "mr_contact_id mr = None \<or> existing_data mr = None")
  case True
  then show ?thesis by (simp add: mergeContact_no_target skipped_result_def)
next
  case False
  then obtain cid ex where m: "mr_contact_id mr = Some cid" "existing_data mr = Some ex"
    by auto
  from mergeContact_effect [OF m, of js r force now s] show ?thesis by auto
qed

lemma findMatch_miss_no_urn:
  assumes "read_faults s = []" "\<not> found (fst (findMatch js org r s))"
  shows "filter (urn_row org (urn_id r)) (contacts s) = []"
proof (rule ccontr)
  assume "filter (urn_row org (urn_id r)) (contacts s) \<noteq> []"
  then obtain c where "find (urn_row org (urn_id r)) (contacts s) = Some c"
    by (cases "find (urn_row org (urn_id r)) (contacts s)") (auto simp: find_None_iff filter_empty_conv)
  moreover have "\<not> fst (take_fault (read_faults s))"
    using assms(1) by (simp add: take_fault_def)
  ultimately have "fst (findMatch js org r s) = match_found URN_ID (snapshot c)"
    by (simp add: findMatch_def matchByUrnId_hit)
  with assms(2) show False by (simp add: match_found_def)
qed

lemma mergeContact_success:
  assumes "mr_contact_id mr = Some cid" "existing_data mr = Some existing"
    and "read_faults s = []" "write_faults s = []" "contact_by_id cid s \<noteq> None"
  shows "action (fst (mergeContact js mr r force now s)) = Updated
     \<and> contact_id (fst (mergeContact js mr r force now s)) = Some cid
     \<and> match_type (fst (mergeContact js mr r force now s)) = mr_match_type mr
     \<and> contacts (snd (mergeContact js mr r force now s)) =
          map (\<lambda>c. if c_id c = cid then apply_update (merge_update_of js existing r force now cid s) c else c)
            (contacts s)"
  using assms
  by (auto simp: mergeContact_def findUnique_jobTitle_def contact_update_def begin_read_def
      begin_write_def take_fault_def merge_update_of_def contact_by_id_def)

lemma urn_row_created: "urn_row org (urn_id r) ((create_row js org r now)\<lparr>c_id := k\<rparr>)"
  by (simp add: urn_row_def create_row_def create_linkedinData_def)

lemma urn_row_merged:
  assumes "organizationId c = org"
  shows "urn_row org (urn_id r) (apply_update (merge_updateData js existing r force now j) c)"
  using assms
  by (simp add: urn_row_def apply_update_def merge_updateData_def merge_linkedinData_def
      empty_update_def Let_def)

lemma organizationId_created: "organizationId ((create_row js org r now)\<lparr>c_id := k\<rparr>) = org"
  by (simp add: create_row_def)

lemma handle_sync_once:
  assumes "safeParse body = Some p" "secret_accepted webhookSecret (SecretString (webhook_secret p))"
  shows "handleConnectionAccepted js webhookSecret body now s =
     (Inr (fst (sync_once js (organization_id (p_source p)) (p_connection p) now s)),
      snd (sync_once js (organization_id (p_source p)) (p_connection p) now s))"
  using assms
  by (auto simp: handleConnectionAccepted_def secret_accepted_def sync_once_def split: prod.splits)

lemma sync_once_created:
  assumes nf: "read_faults s = []" "write_faults s = []"
    and cr: "action (fst (sync_once js org r now s)) = Created"
  shows "contacts (snd (sync_once js org r now s)) = contacts s @ [(create_row js org r now)\<lparr>c_id := next_id s\<rparr>]
     \<and> contact_id (fst (sync_once js org r now s)) = Some (next_id s)
     \<and> read_faults (snd (sync_once js org r now s)) = []
     \<and> write_faults (snd (sync_once js org r now s)) = []
     \<and> filter (urn_row org (urn_id r)) (contacts s) = []"
proof -
  obtain mr sa where f: "findMatch js org r s = (mr, sa)" by force
  note fr = findMatch_frame [of js org r s, unfolded f, simplified]
  have nfound: "\<not> found mr"
    using cr mergeContact_not_created [of js mr r False now sa]
    by (auto simp: sync_once_def match_and_write_def f split: if_splits)
  then have mw: "match_and_write js org r now s = createContact js org r now sa"
    by (simp add: match_and_write_def f)
  have miss: "filter (urn_row org (urn_id r)) (contacts s) = []"
    using findMatch_miss_no_urn [of s js org r] nf(1) nfound by (simp add: f)
  have cr': "action (fst (createContact js org r now sa)) = Created"
    using cr by (simp add: sync_once_def mw)
  from createContact_effect [of js org r now sa] cr'
  have ce: "contact_id (fst (createContact js org r now sa)) = Some (next_id sa)"
    "contacts (snd (createContact js org r now sa)) = contacts sa @ [(create_row js org r now)\<lparr>c_id := next_id sa\<rparr>]"
    by auto
  have wf: "write_faults (snd (createContact js org r now sa)) = []"
    "read_faults (snd (createContact js org r now sa)) = []"
    using fr nf by (simp_all add: createContact_def contact_create_def begin_write_def take_fault_def)
  show ?thesis
    using ce wf fr miss by (simp add: sync_once_def mw log_sync_activity_frame)
qed

lemma sync_once_after_create:
  assumes fresh: "\<forall>c \<in> set cs. c_id c < k"
    and miss: "filter (urn_row org (urn_id r)) cs = []"
    and st: "contacts s = cs @ [(create_row js org r now0)\<lparr>c_id := k\<rparr>]"
      "read_faults s = []" "write_faults s = []"
  shows "action (fst (sync_once js org r now s)) = Updated
     \<and> match_type (fst (sync_once js org r now s)) = Some URN_ID
     \<and> contact_id (fst (sync_once js org r now s)) = Some k
     \<and> length (contacts (snd (sync_once js org r now s))) = length (contacts s)
     \<and> length (filter (urn_row org (urn_id r)) (contacts (snd (sync_once js org r now s)))) = 1"
proof -
  let ?new = "(create_row js org r now0)\<lparr>c_id := k\<rparr>"
  have none: "find (urn_row org (urn_id r)) cs = None"
    using miss by (simp add: find_None_iff filter_empty_conv)
  have fnd: "find (urn_row org (urn_id r)) (contacts s) = Some ?new"
    using urn_row_created [where org = org and r = r and now = now0 and k = k]
    by (simp add: st find_app none)
  have nofault: "\<not> fst (take_fault (read_faults s))"
    by (simp add: st take_fault_def)
  obtain sa where f: "findMatch js org r s = (match_found URN_ID (snapshot ?new), sa)"
    using matchByUrnId_hit [OF nofault fnd] by (simp add: findMatch_def)
  note fr = findMatch_frame [of js org r s, unfolded f, simplified]
  have mw: "match_and_write js org r now s = mergeContact js (match_found URN_ID (snapshot ?new)) r False now sa"
    by (simp add: match_and_write_def f match_found_def)
  have m: "mr_contact_id (match_found URN_ID (snapshot ?new)) = Some k"
    "existing_data (match_found URN_ID (snapshot ?new)) = Some (snapshot ?new)"
    "mr_match_type (match_found URN_ID (snapshot ?new)) = Some URN_ID"
    by (simp_all add: match_found_def snapshot_def)
  have old: "find (\<lambda>c. c_id c = k) cs = None"
    using fresh by (auto simp: find_None_iff)
  have ex: "contact_by_id k sa \<noteq> None"
    using fr old by (simp add: contact_by_id_def st find_app)
  have nf: "read_faults sa = []" "write_faults sa = []"
    using fr st by simp_all
  note ms = mergeContact_success [OF m(1,2) nf ex, of js r False now]
  have keep: "map (\<lambda>c. if c_id c = k then apply_update u c else c) cs = cs" for u
    using fresh by (induction cs) auto
  have cnt: "filter (urn_row org (urn_id r))
       (map (\<lambda>c. if c_id c = k then apply_update (merge_update_of js (snapshot ?new) r False now k sa) c else c)
          (contacts s)) = [apply_update (merge_update_of js (snapshot ?new) r False now k sa) ?new]"
    using miss urn_row_merged [where c = ?new and org = org and r = r and existing = "snapshot ?new" and force = False and now = now]
    by (simp add: st keep merge_update_of_def organizationId_created)
  show ?thesis
    using ms fr cnt by (simp add: sync_once_def mw log_sync_activity_frame m(3))
qed

lemma find_holds: "find P xs = Some x \<Longrightarrow> P x"
  by (induction xs) (auto split: if_splits)

lemma merge_updateData_indep:
  "(merge_updateData js existing r force now j)\<lparr>u_jobTitle := x\<rparr>
     = (merge_updateData js existing r force now j')\<lparr>u_jobTitle := x\<rparr>"
  by (simp add: merge_updateData_def Let_def)

lemma u_jobTitle_merge:
  "u_jobTitle (merge_updateData js existing r force now j) =
     (if force \<or> \<not> truthy (case j of None \<Rightarrow> None | Some t \<Rightarrow> t)
      then map_option Some (job_title r) else None)"
  by (simp add: merge_updateData_def Let_def empty_update_def)

lemma apply_update_twice:
  assumes eq: "U1\<lparr>u_jobTitle := x\<rparr> = U0\<lparr>u_jobTitle := x\<rparr>"
    and jt: "u_jobTitle U1 = None \<or> u_jobTitle U1 = u_jobTitle U0"
  shows "apply_update U1 (apply_update U0 c) = apply_update U0 c"
proof -
  have f: "u_firstName U1 = u_firstName U0" "u_lastName U1 = u_lastName U0"
    "u_email U1 = u_email U0" "u_phone U1 = u_phone U0" "u_linkedinUrl U1 = u_linkedinUrl U0"
    "u_profileImageUrl U1 = u_profileImageUrl U0" "u_isLead U1 = u_isLead U0"
    "u_leadSource U1 = u_leadSource U0" "u_leadStatus U1 = u_leadStatus U0"
    "u_ownerId U1 = u_ownerId U0" "u_priority U1 = u_priority U0"
    "u_customFields U1 = u_customFields U0"
    using arg_cong [OF eq, of u_firstName] arg_cong [OF eq, of u_lastName]
      arg_cong [OF eq, of u_email] arg_cong [OF eq, of u_phone]
      arg_cong [OF eq, of u_linkedinUrl] arg_cong [OF eq, of u_profileImageUrl]
      arg_cong [OF eq, of u_isLead] arg_cong [OF eq, of u_leadSource]
      arg_cong [OF eq, of u_leadStatus] arg_cong [OF eq, of u_ownerId]
      arg_cong [OF eq, of u_priority] arg_cong [OF eq, of u_customFields]
    by simp_all
  have tw: "assign u (assign u y) = assign u y" for u :: "'a option" and y
    by (cases u) simp_all
  from jt show ?thesis
  proof
    assume "u_jobTitle U1 = None"
    then show ?thesis by (simp add: apply_update_def f tw)
  next
    assume "u_jobTitle U1 = u_jobTitle U0"
    then show ?thesis by (simp add: apply_update_def f tw)
  qed
qed

lemma merge_update_twice:
  assumes "c_id c0 = cid"
  shows "apply_update
           (merge_updateData js existing r force now
              (Some (jobTitle (apply_update (merge_updateData js existing r force now (Some (jobTitle c0))) c0))))
           (apply_update (merge_updateData js existing r force now (Some (jobTitle c0))) c)
         = apply_update (merge_updateData js existing r force now (Some (jobTitle c0))) c"
proof (rule apply_update_twice [OF merge_updateData_indep])
  show "u_jobTitle (merge_updateData js existing r force now
           (Some (jobTitle (apply_update (merge_updateData js existing r force now (Some (jobTitle c0))) c0)))) = None
      \<or> u_jobTitle (merge_updateData js existing r force now
           (Some (jobTitle (apply_update (merge_updateData js existing r force now (Some (jobTitle c0))) c0))))
        = u_jobTitle (merge_updateData js existing r force now (Some (jobTitle c0)))"
    by (cases "job_title r")
      (auto simp: u_jobTitle_merge basic_fields_apply_merge truthy_def split: option.splits)
qed

lemma mergeContact_faults:
  assumes "read_faults s = []" "write_faults s = []"
  shows "read_faults (snd (mergeContact js mr r force now s)) = []
     \<and> write_faults (snd (mergeContact js mr r force now s)) = []"
  using assms
  by (auto simp: mergeContact_def findUnique_jobTitle_def contact_update_def begin_read_def
      begin_write_def take_fault_def split: option.splits)

lemma mergeContact_missing:
  assumes "mr_contact_id mr = Some cid" "contact_by_id cid s = None"
  shows "contacts (snd (mergeContact js mr r force now s)) = contacts s"
  using assms
  by (auto simp: mergeContact_def findUnique_jobTitle_def contact_update_def begin_read_def
      begin_write_def contact_by_id_def split: option.splits)

lemma merge_twice_same:
  assumes nf: "read_faults s = []" "write_faults s = []"
  shows "contacts (snd (mergeContact js mr r force now (snd (mergeContact js mr r force now s))))
     = contacts (snd (mergeContact js mr r force now s))"
proof (cases "mr_contact_id mr = None \<or> existing_data mr = None")
  case True
  then show ?thesis by (simp add: mergeContact_no_target)
next
  case False
  then obtain cid ex where m: "mr_contact_id mr = Some cid" "existing_data mr = Some ex"
    by auto
  let ?s1 = "snd (mergeContact js mr r force now s)"
  show ?thesis
  proof (cases "contact_by_id cid s")
    case None
    then have "contacts ?s1 = contacts s"
      using m by (simp add: mergeContact_missing)
    moreover from this None have "contact_by_id cid ?s1 = None"
      by (simp add: contact_by_id_def)
    ultimately show ?thesis
      using m by (simp add: mergeContact_missing)
  next
    case (Some c0)
    then have c0: "c_id c0 = cid"
      using find_holds [of "\<lambda>c. c_id c = cid" "contacts s" c0] by (simp add: contact_by_id_def)
    let ?U0 = "merge_updateData js ex r force now (Some (jobTitle c0))"
    have u0: "merge_update_of js ex r force now cid s = ?U0"
      by (simp add: merge_update_of_def Some)
    have e1: "contact_by_id cid s \<noteq> None" by (simp add: Some)
    note a = mergeContact_success [OF m nf e1, of js r force now, unfolded u0]
    then have cs1: "contacts ?s1 = map (\<lambda>c. if c_id c = cid then apply_update ?U0 c else c) (contacts s)"
      by simp
    have b1: "contact_by_id cid ?s1 = Some (apply_update ?U0 c0)"
      using Some by (simp add: contact_by_id_def cs1 find_update)
    have u1: "merge_update_of js ex r force now cid ?s1
        = merge_updateData js ex r force now (Some (jobTitle (apply_update ?U0 c0)))"
      by (simp add: merge_update_of_def b1)
    have e2: "contact_by_id cid ?s1 \<noteq> None" by (simp add: b1)
    note nf1 = mergeContact_faults [OF nf, of js mr r force now]
    note b = mergeContact_success [OF m nf1 [THEN conjunct1] nf1 [THEN conjunct2] e2, of js r force now,
        unfolded u1]
    have "map (\<lambda>c. if c_id c = cid
                     then apply_update (merge_updateData js ex r force now
                            (Some (jobTitle (apply_update ?U0 c0)))) c
                     else c)
             (map (\<lambda>c. if c_id c = cid then apply_update ?U0 c else c) (contacts s))
        = map (\<lambda>c. if c_id c = cid then apply_update ?U0 c else c) (contacts s)"
      using merge_update_twice [OF c0] by (induction "contacts s") auto
    with b cs1 show ?thesis by simp
  qed
qed

text \<open>
  Claim C3, as the code has it. Let no read and no contact write fail, and let the keys in
  use be below the next key. When a run of \<open>handleConnectionAccepted\<close> creates a
  contact, a second run with the same body, at any later time, answers \<open>updated\<close> with
  kind \<open>URN_ID\<close> for the contact the first run created, adds no contact, and leaves
  exactly one contact with that URN in the organisation. And \<open>mergeContact\<close>, applied a
  second time with the same match, record, flag and clock reading, leaves the contacts as
  the first application left them.
\<close>

theorem pipeline_twice:
  "(fresh_keys s \<and> read_faults s = [] \<and> write_faults s = []
      \<and> safeParse body = Some p \<and> secret_accepted webhookSecret (SecretString (webhook_secret p))
      \<and> handleConnectionAccepted js webhookSecret body now1 s = (Inr r1, s1)
      \<and> action r1 = Created
    \<longrightarrow> (\<exists>r2 s2. handleConnectionAccepted js webhookSecret body now2 s1 = (Inr r2, s2)
          \<and> action r2 = Updated
          \<and> match_type r2 = Some URN_ID
          \<and> contact_id r2 = contact_id r1
          \<and> length (contacts s1) = Suc (length (contacts s))
          \<and> length (contacts s2) = length (contacts s1)
          \<and> length (filter (urn_row (organization_id (p_source p)) (urn_id (p_connection p)))
                      (contacts s2)) = 1))
   \<and> (read_faults s = [] \<and> write_faults s = []
    \<longrightarrow> contacts (snd (mergeContact js mr r force now (snd (mergeContact js mr r force now s))))
          = contacts (snd (mergeContact js mr r force now s)))"
proof (intro conjI impI)
  assume a: "fresh_keys s \<and> read_faults s = [] \<and> write_faults s = []
      \<and> safeParse body = Some p \<and> secret_accepted webhookSecret (SecretString (webhook_secret p))
      \<and> handleConnectionAccepted js webhookSecret body now1 s = (Inr r1, s1)
      \<and> action r1 = Created"
  let ?org = "organization_id (p_source p)"
  let ?r = "p_connection p"
  from a have ok: "safeParse body = Some p" "secret_accepted webhookSecret (SecretString (webhook_secret p))"
    by simp_all
  from a have nf: "read_faults s = []" "write_faults s = []" by simp_all
  from a have run1: "fst (sync_once js ?org ?r now1 s) = r1" "snd (sync_once js ?org ?r now1 s) = s1"
    using handle_sync_once [OF ok, of js now1 s] by simp_all
  from a have cr: "action (fst (sync_once js ?org ?r now1 s)) = Created"
    by (simp add: run1)
  note c1 = sync_once_created [OF nf cr, unfolded run1]
  from a have fresh: "\<forall>c \<in> set (contacts s). c_id c < next_id s"
    by (simp add: fresh_keys_def)
  from c1 have miss: "filter (urn_row ?org (urn_id ?r)) (contacts s) = []"
    and st: "contacts s1 = contacts s @ [(create_row js ?org ?r now1)\<lparr>c_id := next_id s\<rparr>]"
      "read_faults s1 = []" "write_faults s1 = []"
    by simp_all
  note c2 = sync_once_after_create [OF fresh miss st, of now2]
  have h2: "handleConnectionAccepted js webhookSecret body now2 s1 =
     (Inr (fst (sync_once js ?org ?r now2 s1)), snd (sync_once js ?org ?r now2 s1))"
    by (rule handle_sync_once [OF ok])
  show "\<exists>r2 s2. handleConnectionAccepted js webhookSecret body now2 s1 = (Inr r2, s2)
          \<and> action r2 = Updated
          \<and> match_type r2 = Some URN_ID
          \<and> contact_id r2 = contact_id r1
          \<and> length (contacts s1) = Suc (length (contacts s))
          \<and> length (contacts s2) = length (contacts s1)
          \<and> length (filter (urn_row ?org (urn_id ?r)) (contacts s2)) = 1"
    using h2 c1 c2 by (simp add: st)
next
  assume "read_faults s = [] \<and> write_faults s = []"
  then show "contacts (snd (mergeContact js mr r force now (snd (mergeContact js mr r force now s))))
          = contacts (snd (mergeContact js mr r force now s))"
    by (simp add: merge_twice_same)
qed

theorem pipeline_twice_witness:
  "fresh_keys empty_store \<and> read_faults empty_store = [] \<and> write_faults empty_store = []
   \<and> safeParse (WellFormed ada_payload) = Some ada_payload
   \<and> secret_accepted ''wrong'' (SecretString (webhook_secret ada_payload))
   \<and> fst (handleConnectionAccepted ascii_js ''wrong'' (WellFormed ada_payload) ''t1'' empty_store)
       = Inr \<lparr>success = True, action = Created, contact_id = Some 1, match_type = Some NEW,
              message = Some ''Created new contact: Ada Lovelace'', error = None\<rparr>
   \<and> (\<exists>r2 s2. handleConnectionAccepted ascii_js ''wrong'' (WellFormed ada_payload) ''t2''
                  (snd (handleConnectionAccepted ascii_js ''wrong'' (WellFormed ada_payload) ''t1'' empty_store))
                = (Inr r2, s2)
          \<and> action r2 = Updated \<and> match_type r2 = Some URN_ID \<and> contact_id r2 = Some 1
          \<and> length (contacts s2) = 1)
   \<and> contacts (snd (mergeContact ascii_js (match_found URN_ID (snapshot contact_A)) ada False ''t1''
        (snd (mergeContact ascii_js (match_found URN_ID (snapshot contact_A)) ada False ''t1'' store_AB))))
       = contacts (snd (mergeContact ascii_js (match_found URN_ID (snapshot contact_A)) ada False ''t1'' store_AB))"
proof -
  let ?r1 = "\<lparr>success = True, action = Created, contact_id = Some 1, match_type = Some NEW,
              message = Some ''Created new contact: Ada Lovelace'', error = None\<rparr>"
  let ?s1 = "snd (handleConnectionAccepted ascii_js ''wrong'' (WellFormed ada_payload) ''t1'' empty_store)"
  have h: "fresh_keys empty_store" "read_faults empty_store = []" "write_faults empty_store = []"
    by (simp_all add: fresh_keys_def empty_store_def)
  have k: "read_faults store_AB = []" "write_faults store_AB = []"
    by (simp_all add: store_AB_def empty_store_def)
  have ok: "safeParse (WellFormed ada_payload) = Some ada_payload"
    "secret_accepted ''wrong'' (SecretString (webhook_secret ada_payload))"
    by code_simp+
  have ev: "fst (handleConnectionAccepted ascii_js ''wrong'' (WellFormed ada_payload) ''t1'' empty_store) = Inr ?r1"
    by code_simp
  then have run1: "handleConnectionAccepted ascii_js ''wrong'' (WellFormed ada_payload) ''t1'' empty_store
      = (Inr ?r1, ?s1)"
    by (simp add: prod_eq_iff)
  have act: "action ?r1 = Created" by simp
  have len: "length (contacts empty_store) = 0" by (simp add: empty_store_def)
  from pipeline_twice [of empty_store "WellFormed ada_payload" ada_payload "''wrong''" ascii_js "''t1''" ?r1 ?s1
      "''t2''" "match_found URN_ID (snapshot contact_A)" ada False "''t1''"]
    h ok run1 act
  have p1: "\<exists>r2 s2. handleConnectionAccepted ascii_js ''wrong'' (WellFormed ada_payload) ''t2'' ?s1 = (Inr r2, s2)
          \<and> action r2 = Updated \<and> match_type r2 = Some URN_ID \<and> contact_id r2 = Some 1
          \<and> length (contacts s2) = 1"
    using len by auto
  from pipeline_twice [of store_AB "WellFormed ada_payload" ada_payload "''wrong''" ascii_js "''t1''" ?r1 ?s1
      "''t2''" "match_found URN_ID (snapshot contact_A)" ada False "''t1''"] k
  have p2: "contacts (snd (mergeContact ascii_js (match_found URN_ID (snapshot contact_A)) ada False ''t1''
        (snd (mergeContact ascii_js (match_found URN_ID (snapshot contact_A)) ada False ''t1'' store_AB))))
       = contacts (snd (mergeContact ascii_js (match_found URN_ID (snapshot contact_A)) ada False ''t1'' store_AB))"
    by blast
  from h ok ev p1 p2 show ?thesis by blast
qed

theorem idempotency_counterexample:
  "length (filter (urn_row ''7d4e1f6a-2b3c-4d5e-8f90-1a2b3c4d5e6f'' (urn_id ada))
      (contacts (snd (createContact ascii_js ''7d4e1f6a-2b3c-4d5e-8f90-1a2b3c4d5e6f'' ada ''t1''
         (snd (createContact ascii_js ''7d4e1f6a-2b3c-4d5e-8f90-1a2b3c4d5e6f'' ada ''t1'' empty_store)))))) = 2
   \<and> contacts (snd (mergeContact ascii_js (match_found URN_ID (snapshot contact_A)) ada False ''t2''
        (snd (mergeContact ascii_js (match_found URN_ID (snapshot contact_A)) ada False ''t1'' store_AB))))
       \<noteq> contacts (snd (mergeContact ascii_js (match_found URN_ID (snapshot contact_A)) ada False ''t1'' store_AB))"
  by code_simp

end
